theory Spec2Isabelle
  imports Complex_Main "HOL-Library.Word" "HOL-Library.Multiset"
begin

section \<open>JavaScript values used by app.js\<close>

text \<open>
  A JavaScript string is a sequence of 16-bit code units; \<open>length\<close> and \<open>slice\<close> of the
  source count code units. String literals of the source are ASCII and are written
  \<open>js ''...''\<close>.
\<close>

type_synonym js_string = "16 word list"

definition js :: "string \<Rightarrow> js_string" where
  "js s = map of_char s"

text \<open>\<open>s.slice(i, j)\<close> for indices \<open>0 \<le> i \<le> j\<close>; the end index is clipped to the length.\<close>

definition slice :: "'a list \<Rightarrow> nat \<Rightarrow> nat \<Rightarrow> 'a list" where
  "slice s i j = take (j - i) (drop i s)"

text \<open>
  White space and line terminators removed by \<open>String.prototype.trim\<close>, as code
  units: TAB, LF, VT, FF, CR, SP, NBSP, U+1680, U+2000..U+200A, U+2028, U+2029, U+202F,
  U+205F, U+3000, U+FEFF.
\<close>

definition is_js_space :: "16 word \<Rightarrow> bool" where
  "is_js_space c \<longleftrightarrow>
     c \<in> {0x9, 0xA, 0xB, 0xC, 0xD, 0x20, 0xA0, 0x1680, 0x2028, 0x2029, 0x202F, 0x205F, 0x3000, 0xFEFF}
     \<or> (0x2000 \<le> c \<and> c \<le> 0x200A)"

definition trim :: "js_string \<Rightarrow> js_string" where
  "trim s = rev (dropWhile is_js_space (rev (dropWhile is_js_space s)))"

text \<open>Decimal rendering of a non-negative integer inside a template literal.\<close>

fun show_nat :: "nat \<Rightarrow> js_string" where
  "show_nat n =
     (if n < 10 then [of_nat (48 + n)]
      else show_nat (n div 10) @ [of_nat (48 + n mod 10)])"

declare show_nat.simps [simp del]

section \<open>The outside world\<close>

text \<open>
  The three backends are reached over HTTP. A \<open>fetch\<close> either rejects (transport
  failure) or resolves to a response with a status and a body. The body is kept only as
  far as the source reads it.
\<close>

datatype 'b fetch_outcome = Rejected | Response nat 'b

definition ok :: "nat \<Rightarrow> bool" where
  "ok st \<longleftrightarrow> 200 \<le> st \<and> st \<le> 299"

text \<open>
  One element of \<open>data["serial-metadata-response"].entry\<close>. A field that is absent is
  \<open>None\<close>; \<open>citeScoreCurrentMetric\<close> is \<open>None\<close> also when \<open>citeScoreYearInfoList\<close> is
  absent (the source reads it through \<open>?.\<close>). The backend delivers scores as strings.
\<close>

record link =
  ref :: "js_string option"
  href :: "js_string option"

record journal_entry =
  dc_title :: "js_string option"
  citeScoreCurrentMetric :: "js_string option"
  links :: "link list option"

text \<open>
  The body of a response of the search backend as \<open>searchJournals\<close> reads it: not JSON
  (\<open>response.json()\<close> rejects with a SyntaxError), JSON without
  \<open>"serial-metadata-response"\<close> or without an \<open>entry\<close> array under it (reading \<open>.entry\<close>
  or calling \<open>.map\<close> throws a TypeError), or JSON with the entry array.
\<close>

datatype search_body = NotJson | NoEntries | Entries "journal_entry list"

text \<open>The record built by the \<open>map\<close> callback of \<open>searchJournals\<close>.\<close>

record journal =
  title :: js_string
  citeScore :: js_string
  scopusLink :: js_string

text \<open>Requests issued to the backends, in the order they are issued.\<close>

datatype request =
  GenerateContent js_string
| ElsevierGet js_string
| WhatsAppText js_string js_string
| WhatsAppButtons js_string js_string "(js_string \<times> js_string) list"

text \<open>
  The environment of one run: the configured verification secret (\<open>None\<close> when the
  variable is unset) and the behaviour of the backends. \<open>generateContent\<close> gives the text
  of the model's answer to a prompt, \<open>None\<close> when the call or \<open>response.text()\<close>
  throws. \<open>elsevier\<close> gives the outcome of the GET for a title. \<open>whatsapp n\<close> is the
  outcome of the POST issued when \<open>n\<close> requests have been issued before it; its body
  tells whether the response parses as JSON. \<open>toNumber\<close> is the numeric value of a score
  string under the coercion of \<open>-\<close>; scores are taken to be numeric.
\<close>

record env =
  VERIFY_TOKEN :: "js_string option"
  generateContent :: "js_string \<Rightarrow> js_string option"
  elsevier :: "js_string \<Rightarrow> search_body fetch_outcome"
  whatsapp :: "nat \<Rightarrow> bool fetch_outcome"
  toNumber :: "js_string \<Rightarrow> real"

text \<open>
  The module-level variables \<open>processedMessages\<close> and \<open>userState\<close> (the own properties
  of the object), and the requests issued so far.
\<close>

record world =
  processedMessages :: "js_string set"
  userState :: "js_string \<rightharpoonup> js_string"
  requests :: "request list"

section \<open>Exceptions and sequencing\<close>

datatype exn =
  TopicRequired
| FailedToGenerateTitles
| ApiError nat
| WhatsAppApiError nat
| TypeError
| FetchError
| SyntaxError

type_synonym 'a prog = "world \<Rightarrow> (exn + 'a) \<times> world"

definition returnP :: "'a \<Rightarrow> 'a prog" where
  "returnP x w = (Inr x, w)"

definition throwP :: "exn \<Rightarrow> 'a prog" where
  "throwP e w = (Inl e, w)"

definition bindP :: "'a prog \<Rightarrow> ('a \<Rightarrow> 'b prog) \<Rightarrow> 'b prog" where
  "bindP m f w = (case m w of (Inl e, w') \<Rightarrow> (Inl e, w') | (Inr x, w') \<Rightarrow> f x w')"

definition try_catch :: "'a prog \<Rightarrow> (exn \<Rightarrow> 'a prog) \<Rightarrow> 'a prog" where
  "try_catch m h w = (case m w of (Inl e, w') \<Rightarrow> h e w' | (Inr x, w') \<Rightarrow> (Inr x, w'))"

definition modify :: "(world \<Rightarrow> world) \<Rightarrow> unit prog" where
  "modify f w = (Inr (), f w)"

section \<open>Outbound messenger\<close>

text \<open>\<open>await fetch(url, {method: "POST", ...})\<close> against the WhatsApp endpoint.\<close>

definition fetch_whatsapp :: "env \<Rightarrow> request \<Rightarrow> (nat \<times> bool) prog" where
  "fetch_whatsapp e r w =
     (case whatsapp e (length (requests w)) of
        Rejected \<Rightarrow> (Inl FetchError, w\<lparr>requests := requests w @ [r]\<rparr>)
      | Response st b \<Rightarrow> (Inr (st, b), w\<lparr>requests := requests w @ [r]\<rparr>))"

definition MAX_MESSAGE_LENGTH :: nat where
  "MAX_MESSAGE_LENGTH = 4096"

text \<open>The \<open>for\<close> loop of \<open>sendWhatsAppMessage\<close>, from index \<open>i\<close>.\<close>

function send_loop :: "env \<Rightarrow> js_string \<Rightarrow> js_string \<Rightarrow> nat \<Rightarrow> unit prog" where
  "send_loop e to message i w =
     (if i < length message then
        (case fetch_whatsapp e (WhatsAppText to (slice message i (i + MAX_MESSAGE_LENGTH))) w of
           (Inl err, w') \<Rightarrow> (Inl err, w')
         | (Inr response, w') \<Rightarrow>
             if \<not> ok (fst response) then (Inl (WhatsAppApiError (fst response)), w')
             else send_loop e to message (i + MAX_MESSAGE_LENGTH) w')
      else (Inr (), w))"
  by pat_completeness auto
termination
  by (relation "measure (\<lambda>(e, to, message, i, w). length message - i)")
     (auto simp: MAX_MESSAGE_LENGTH_def)

declare send_loop.simps [simp del]

definition sendWhatsAppMessage :: "env \<Rightarrow> js_string \<Rightarrow> js_string \<Rightarrow> unit prog" where
  "sendWhatsAppMessage e to message =
     try_catch (send_loop e to message 0) (\<lambda>error. throwP error)"

definition sendWhatsAppMessageWithButtons ::
  "env \<Rightarrow> js_string \<Rightarrow> js_string \<Rightarrow> (js_string \<times> js_string) list \<Rightarrow> unit prog" where
  "sendWhatsAppMessageWithButtons e to message buttons =
     try_catch
       (bindP (fetch_whatsapp e (WhatsAppButtons to message buttons)) (\<lambda>response.
          if \<not> ok (fst response) then throwP (WhatsAppApiError (fst response))
          else if \<not> snd response then throwP SyntaxError
          else returnP ()))
       (\<lambda>error. throwP error)"

definition sendGreeting :: "env \<Rightarrow> js_string \<Rightarrow> unit prog" where
  "sendGreeting e phoneNumber =
     sendWhatsAppMessageWithButtons e phoneNumber (js ''Hello! Choose an option:'')
       [(js ''get_topics'', js ''Topics''), (js ''search_journals'', js ''Search Journals'')]"

section \<open>External query adapters\<close>

text \<open>\<open>await model.generateContent(prompt)\<close> followed by \<open>result.response.text()\<close>.\<close>

definition call_generateContent :: "env \<Rightarrow> js_string \<Rightarrow> js_string prog" where
  "call_generateContent e prompt w =
     (case generateContent e prompt of
        None \<Rightarrow> (Inl FetchError, w\<lparr>requests := requests w @ [GenerateContent prompt]\<rparr>)
      | Some t \<Rightarrow> (Inr t, w\<lparr>requests := requests w @ [GenerateContent prompt]\<rparr>))"

definition prompt_for :: "js_string \<Rightarrow> js_string" where
  "prompt_for topic =
     js ''I am planning to write a research paper. The keywords of the domain are ''
     @ [0x22] @ topic @ [0x22]
     @ js ''. Please generate 10 possible titles for my research paper. Only provide the titles in plain text, with no formatting (like bold, italics, or bullet points) but each topic with a numbering with each points have a gap in between.''"

definition generateTitles :: "env \<Rightarrow> js_string \<Rightarrow> js_string prog" where
  "generateTitles e topic =
     (if topic = [] then throwP TopicRequired
      else try_catch
             (bindP (call_generateContent e (prompt_for topic)) (\<lambda>titles. returnP (trim titles)))
             (\<lambda>error. throwP FailedToGenerateTitles))"

text \<open>The GET of \<open>searchJournals\<close>, followed by \<open>response.json()\<close>.\<close>

definition fetch_elsevier :: "env \<Rightarrow> js_string \<Rightarrow> (nat \<times> search_body) prog" where
  "fetch_elsevier e t w =
     (case elsevier e t of
        Rejected \<Rightarrow> (Inl FetchError, w\<lparr>requests := requests w @ [ElsevierGet t]\<rparr>)
      | Response st b \<Rightarrow> (Inr (st, b), w\<lparr>requests := requests w @ [ElsevierGet t]\<rparr>))"

text \<open>\<open>v || "N/A"\<close>: an absent or empty string gives \<open>"N/A"\<close>.\<close>

definition or_NA :: "js_string option \<Rightarrow> js_string" where
  "or_NA v = (case v of None \<Rightarrow> js ''N/A'' | Some s \<Rightarrow> if s = [] then js ''N/A'' else s)"

text \<open>
  The \<open>map\<close> callback. Reading \<open>journal.link.find\<close> throws a TypeError when the entry
  has no \<open>link\<close> array.
\<close>

definition extract_journal :: "journal_entry \<Rightarrow> exn + journal" where
  "extract_journal j =
     (case links j of
        None \<Rightarrow> Inl TypeError
      | Some ls \<Rightarrow>
          Inr \<lparr>title = or_NA (dc_title j),
               citeScore = or_NA (citeScoreCurrentMetric j),
               scopusLink =
                 or_NA (case find (\<lambda>l. ref l = Some (js ''scopus-source'')) ls of
                          None \<Rightarrow> None
                        | Some l \<Rightarrow> href l)\<rparr>)"

fun map_extract :: "journal_entry list \<Rightarrow> exn + journal list" where
  "map_extract [] = Inr []"
| "map_extract (j # rest) =
     (case extract_journal j of
        Inl err \<Rightarrow> Inl err
      | Inr r \<Rightarrow> (case map_extract rest of Inl err \<Rightarrow> Inl err | Inr rs \<Rightarrow> Inr (r # rs)))"

text \<open>The comparator passed to \<open>sort\<close>.\<close>

definition compareFn :: "env \<Rightarrow> journal \<Rightarrow> journal \<Rightarrow> real" where
  "compareFn e a b =
     (if citeScore a = js ''N/A'' then 1
      else if citeScore b = js ''N/A'' then - 1
      else toNumber e (citeScore b) - toNumber e (citeScore a))"

text \<open>
  \<open>Array.prototype.sort\<close> with a comparator. The engine sorts stably and consults the
  comparator only through the test \<open>comparefn(x, y) < 0\<close>; where that test is a strict
  weak order, as it is for \<open>compareFn\<close>, a stable sort has one possible result, which
  is computed here by insertion from the left.
\<close>

fun insert_by :: "('a \<Rightarrow> 'a \<Rightarrow> real) \<Rightarrow> 'a \<Rightarrow> 'a list \<Rightarrow> 'a list" where
  "insert_by cmp x [] = [x]"
| "insert_by cmp x (y # ys) = (if cmp x y < 0 then x # y # ys else y # insert_by cmp x ys)"

definition Array_sort :: "('a \<Rightarrow> 'a \<Rightarrow> real) \<Rightarrow> 'a list \<Rightarrow> 'a list" where
  "Array_sort cmp xs = foldl (\<lambda>sorted x. insert_by cmp x sorted) [] xs"

definition searchJournals :: "env \<Rightarrow> js_string \<Rightarrow> journal list prog" where
  "searchJournals e t =
     try_catch
       (bindP (fetch_elsevier e t) (\<lambda>response.
          if \<not> ok (fst response) then throwP (ApiError (fst response))
          else (case snd response of
                  NotJson \<Rightarrow> throwP SyntaxError
                | NoEntries \<Rightarrow> throwP TypeError
                | Entries journals \<Rightarrow>
                    (case map_extract journals of
                       Inl err \<Rightarrow> throwP err
                     | Inr rs \<Rightarrow> returnP (slice (Array_sort (compareFn e) rs) 0 20)))))
       (\<lambda>error. throwP error)"

section \<open>Webhook verification\<close>

record query =
  hub_mode :: "js_string option"
  hub_verify_token :: "js_string option"
  hub_challenge :: "js_string option"

text \<open>
  What a handler sends back: \<open>res.status(n).send(body)\<close> or \<open>res.sendStatus(n)\<close>.
\<close>

datatype http_response = Send nat "js_string option" | SendStatus nat

text \<open>Truthiness of a query parameter: present and not the empty string.\<close>

definition truthy :: "js_string option \<Rightarrow> bool" where
  "truthy v \<longleftrightarrow> (case v of None \<Rightarrow> False | Some s \<Rightarrow> s \<noteq> [])"

text \<open>The GET handler; \<open>None\<close> when it returns without sending a response.\<close>

definition get_webhook :: "env \<Rightarrow> query \<Rightarrow> http_response option" where
  "get_webhook e q =
     (if truthy (hub_mode q) \<and> truthy (hub_verify_token q) then
        (if hub_mode q = Some (js ''subscribe'') \<and> hub_verify_token q = VERIFY_TOKEN e
         then Some (Send 200 (hub_challenge q))
         else Some (SendStatus 403))
      else None)"

section \<open>Conversation dispatcher\<close>

text \<open>
  \<open>userState\<close> is a plain object used as a dictionary keyed by the sender. Reading
  \<open>userState[k]\<close> gives the own property when there is one, the member inherited from
  \<open>Object.prototype\<close> when \<open>k\<close> names one, and \<open>undefined\<close> otherwise. Assigning to
  the key \<open>__proto__\<close> runs the inherited setter, which ignores a string; every other
  assignment creates or overwrites the own property. \<open>delete\<close> removes the own property.
\<close>

definition Object_prototype_names :: "js_string list" where
  "Object_prototype_names =
     map js [''constructor'', ''__defineGetter__'', ''__defineSetter__'', ''hasOwnProperty'',
             ''__lookupGetter__'', ''__lookupSetter__'', ''isPrototypeOf'',
             ''propertyIsEnumerable'', ''toString'', ''valueOf'', ''__proto__'',
             ''toLocaleString'']"

datatype property = Undefined | Own js_string | Inherited

definition get_userState :: "world \<Rightarrow> js_string \<Rightarrow> property" where
  "get_userState w k =
     (case userState w k of
        Some v \<Rightarrow> Own v
      | None \<Rightarrow> if k \<in> set Object_prototype_names then Inherited else Undefined)"

definition set_userState :: "js_string \<Rightarrow> js_string \<Rightarrow> world \<Rightarrow> world" where
  "set_userState k v w =
     (if k = js ''__proto__'' then w else w\<lparr>userState := (userState w)(k \<mapsto> v)\<rparr>)"

definition delete_userState :: "js_string \<Rightarrow> world \<Rightarrow> world" where
  "delete_userState k w = w\<lparr>userState := (userState w)(k := None)\<rparr>"

text \<open>\<open>!v\<close> for a value read from \<open>userState\<close>.\<close>

definition falsy :: "property \<Rightarrow> bool" where
  "falsy v \<longleftrightarrow> v = Undefined \<or> v = Own []"

text \<open>
  The first message of the envelope, \<open>body.entry[0].changes[0].value.messages[0]\<close>, with
  the fields the handler reads: \<open>from\<close>, \<open>id\<close>, \<open>text.body\<close> (\<open>None\<close> when the message
  has no \<open>text\<close>) and \<open>interactive\<close> (\<open>None\<close> when absent). An \<open>interactive\<close> object may
  lack \<open>button_reply\<close>, and a \<open>button_reply\<close> may lack \<open>id\<close>.
\<close>

datatype button_reply = ButtonReply (reply_id: "js_string option")

datatype interactive = Interactive (button_reply: "button_reply option")

record message_data =
  msg_from :: js_string
  msg_id :: js_string
  text_body :: "js_string option"
  msg_interactive :: "interactive option"

text \<open>
  The request body as the guards of the handler see it: \<open>body.object\<close> is falsy, or the
  path to the first message is broken somewhere, or there is a first message.
\<close>

datatype webhook_body = NoObject | NoMessage | Message message_data

definition journal_lines :: "nat \<Rightarrow> journal \<Rightarrow> js_string" where
  "journal_lines index journal =
     show_nat (index + 1) @ js ''. '' @ title journal @ [0xA]
     @ js ''   CiteScore: '' @ citeScore journal @ [0xA]
     @ js ''   Scopus: '' @ scopusLink journal @ [0xA, 0xA]"

definition responseMessage :: "js_string \<Rightarrow> journal list \<Rightarrow> js_string" where
  "responseMessage message journals =
     foldl (\<lambda>acc (index, journal). acc @ journal_lines index journal)
       (js ''Top '' @ show_nat (length journals) @ js '' journals matching ''
        @ [0x22] @ message @ [0x22] @ js '':'' @ [0xA, 0xA])
       (enumerate 0 journals)"

text \<open>The button branch, after \<open>buttonId\<close> has been read.\<close>

definition button_branch :: "env \<Rightarrow> js_string \<Rightarrow> js_string option \<Rightarrow> unit prog" where
  "button_branch e phoneNumber buttonId =
     (if buttonId = Some (js ''get_topics'') then
        bindP (modify (set_userState phoneNumber (js ''waiting_for_topic''))) (\<lambda>_.
        sendWhatsAppMessage e phoneNumber (js ''Please enter the topic for your research paper:''))
      else if buttonId = Some (js ''search_journals'') then
        bindP (modify (set_userState phoneNumber (js ''waiting_for_journal_title''))) (\<lambda>_.
        sendWhatsAppMessage e phoneNumber (js ''Please enter the journal title to search for:''))
      else returnP ())"

definition topic_branch :: "env \<Rightarrow> js_string \<Rightarrow> js_string \<Rightarrow> unit prog" where
  "topic_branch e phoneNumber message =
     try_catch
       (bindP (generateTitles e message) (\<lambda>titles.
        bindP (sendWhatsAppMessage e phoneNumber titles) (\<lambda>_.
        modify (delete_userState phoneNumber))))
       (\<lambda>error.
        bindP (sendWhatsAppMessage e phoneNumber
                 (js ''Error processing your message. Please try again.'')) (\<lambda>_.
        modify (delete_userState phoneNumber)))"

definition journal_branch :: "env \<Rightarrow> js_string \<Rightarrow> js_string \<Rightarrow> unit prog" where
  "journal_branch e phoneNumber message =
     try_catch
       (bindP (searchJournals e message) (\<lambda>journals.
        bindP (if length journals = 0 then
                 sendWhatsAppMessage e phoneNumber
                   (js ''No journals found matching your search criteria.'')
               else sendWhatsAppMessage e phoneNumber (responseMessage message journals)) (\<lambda>_.
        modify (delete_userState phoneNumber))))
       (\<lambda>error.
        bindP (sendWhatsAppMessage e phoneNumber
                 (js ''Error searching journals. Please try again.'')) (\<lambda>_.
        modify (delete_userState phoneNumber)))"

text \<open>The chain of branches that follows the duplicate check.\<close>

definition dispatch :: "env \<Rightarrow> message_data \<Rightarrow> js_string \<Rightarrow> js_string \<Rightarrow> unit prog" where
  "dispatch e messageData phoneNumber message w =
     (case msg_interactive messageData of
        Some i \<Rightarrow>
          (case button_reply i of
             None \<Rightarrow> throwP TypeError w
           | Some r \<Rightarrow> button_branch e phoneNumber (reply_id r) w)
      | None \<Rightarrow>
          if get_userState w phoneNumber = Own (js ''waiting_for_topic'') then
            topic_branch e phoneNumber message w
          else if get_userState w phoneNumber = Own (js ''waiting_for_journal_title'') then
            journal_branch e phoneNumber message w
          else if falsy (get_userState w phoneNumber) then sendGreeting e phoneNumber w
          else returnP () w)"

text \<open>
  The POST handler. One call is modelled as running to completion: the duplicate check and
  the insertion into \<open>processedMessages\<close> have no \<open>await\<close> between them.
\<close>

definition post_webhook :: "env \<Rightarrow> webhook_body \<Rightarrow> world \<Rightarrow> http_response \<times> world" where
  "post_webhook e body w =
     (case body of
        NoObject \<Rightarrow> (SendStatus 200, w)
      | NoMessage \<Rightarrow> (SendStatus 200, w)
      | Message messageData \<Rightarrow>
          (let phoneNumber = msg_from messageData;
               message = (case text_body messageData of Some b \<Rightarrow> b | None \<Rightarrow> []);
               messageId = msg_id messageData
           in if messageId \<in> processedMessages w then
                (Send 200 (Some (js ''Message already processed'')), w)
              else
                (case dispatch e messageData phoneNumber message
                        (w\<lparr>processedMessages := insert messageId (processedMessages w)\<rparr>) of
                   (Inr u, w') \<Rightarrow> (SendStatus 200, w')
                 | (Inl error, w') \<Rightarrow> (SendStatus 500, w'))))"

section \<open>Notions used in the statements\<close>

text \<open>
  The POST issued when \<open>n\<close> requests have gone before it is delivered: the transport
  answers with a success status. It is accepted when, in addition, the body of the answer
  parses as JSON, which \<open>sendWhatsAppMessageWithButtons\<close> requires.
\<close>

definition delivered :: "env \<Rightarrow> nat \<Rightarrow> bool" where
  "delivered e n \<longleftrightarrow> (case whatsapp e n of Rejected \<Rightarrow> False | Response st b \<Rightarrow> ok st)"

definition accepted :: "env \<Rightarrow> nat \<Rightarrow> bool" where
  "accepted e n \<longleftrightarrow> (case whatsapp e n of Rejected \<Rightarrow> False | Response st b \<Rightarrow> ok st \<and> b)"


text \<open>The chunk taken in iteration \<open>k\<close> of the loop of \<open>sendWhatsAppMessage\<close>.\<close>

definition chunk :: "js_string \<Rightarrow> nat \<Rightarrow> js_string" where
  "chunk message k = slice message (k * MAX_MESSAGE_LENGTH) (k * MAX_MESSAGE_LENGTH + MAX_MESSAGE_LENGTH)"

text \<open>
  \<open>ranked e a b\<close>: record \<open>a\<close> may stand before record \<open>b\<close> in a list sorted
  descending by score with the unknown scores last.
\<close>

definition ranked :: "env \<Rightarrow> journal \<Rightarrow> journal \<Rightarrow> bool" where
  "ranked e a b \<longleftrightarrow>
     citeScore b = js ''N/A''
     \<or> (citeScore a \<noteq> js ''N/A'' \<and> toNumber e (citeScore b) \<le> toNumber e (citeScore a))"

text \<open>The requests that are outbound messages.\<close>

definition is_send :: "request \<Rightarrow> bool" where
  "is_send r \<longleftrightarrow> (case r of WhatsAppText to b \<Rightarrow> True | WhatsAppButtons to b bs \<Rightarrow> True | _ \<Rightarrow> False)"

text \<open>The two values the handler stores in \<open>userState\<close>.\<close>

definition pending_values :: "js_string set" where
  "pending_values = {js ''waiting_for_topic'', js ''waiting_for_journal_title''}"

text \<open>A sequence of POST requests, each with the environment it runs in.\<close>

fun run :: "(env \<times> webhook_body) list \<Rightarrow> world \<Rightarrow> world" where
  "run [] w = w"
| "run (ev # evs) w = run evs (snd (post_webhook (fst ev) (snd ev) w))"

section \<open>Notions used in the proofs\<close>

text \<open>The request of iteration \<open>k\<close> counted from index \<open>i\<close>, and the iterations left from \<open>i\<close>.\<close>

definition chunk_request :: "js_string \<Rightarrow> js_string \<Rightarrow> nat \<Rightarrow> nat \<Rightarrow> request" where
  "chunk_request to message i k =
     WhatsAppText to (slice message (i + k * MAX_MESSAGE_LENGTH) (i + k * MAX_MESSAGE_LENGTH + MAX_MESSAGE_LENGTH))"

definition chunks_from :: "nat \<Rightarrow> nat \<Rightarrow> nat \<Rightarrow> nat" where
  "chunks_from c L i = (L - i + (c - 1)) div c"

text \<open>
  \<open>req_only w w'\<close>: \<open>w'\<close> is \<open>w\<close> with further requests issued. \<open>step_of p w w'\<close>:
  in addition the entry of sender \<open>p\<close> may have been set to one of the two values or
  deleted.
\<close>

definition req_only :: "world \<Rightarrow> world \<Rightarrow> bool" where
  "req_only w w' \<longleftrightarrow> (\<exists>rs. w' = w\<lparr>requests := requests w @ rs\<rparr>)"

definition step_of :: "js_string \<Rightarrow> world \<Rightarrow> world \<Rightarrow> bool" where
  "step_of p w w' \<longleftrightarrow>
     processedMessages w' = processedMessages w
     \<and> (\<exists>rs. requests w' = requests w @ rs)
     \<and> (userState w' = userState w
        \<or> userState w' = (userState w)(p \<mapsto> js ''waiting_for_topic'')
        \<or> userState w' = (userState w)(p \<mapsto> js ''waiting_for_journal_title'')
        \<or> userState w' = (userState w)(p := None))"

section \<open>Concrete inputs\<close>

text \<open>
  The state at start-up. An environment in which every POST to the messaging platform is
  accepted while the generative and the search backend are unreachable; one in which only
  the first POST is delivered; one in which none is.
\<close>

definition start_up :: world where
  "start_up = \<lparr>processedMessages = {}, userState = Map.empty, requests = []\<rparr>"

definition whatsapp_up :: env where
  "whatsapp_up = \<lparr>VERIFY_TOKEN = None, generateContent = (\<lambda>p. None), elsevier = (\<lambda>t. Rejected),
          whatsapp = (\<lambda>n. Response 200 True), toNumber = (\<lambda>s. 0)\<rparr>"

definition whatsapp_first_only :: env where
  "whatsapp_first_only = whatsapp_up\<lparr>whatsapp := (\<lambda>n. if n = 0 then Response 200 True else Response 500 False)\<rparr>"

definition whatsapp_down :: env where
  "whatsapp_down = whatsapp_up\<lparr>whatsapp := (\<lambda>n. Response 500 False)\<rparr>"

text \<open>The generative backend answers with a text of 5000 code units.\<close>

definition long_answer :: env where
  "long_answer = whatsapp_up\<lparr>generateContent := (\<lambda>p. Some (replicate 5000 97))\<rparr>"

text \<open>
  The search backend answers with the scores 5, unknown, 9, unknown, 3; the records
  extracted from such entries.
\<close>

definition entry_with_score :: "js_string option \<Rightarrow> journal_entry" where
  "entry_with_score s = \<lparr>dc_title = Some (js ''J''), citeScoreCurrentMetric = s, links = Some []\<rparr>"

definition journal_with_score :: "js_string \<Rightarrow> journal" where
  "journal_with_score s = \<lparr>title = js ''J'', citeScore = s, scopusLink = js ''N/A''\<rparr>"

definition five_scores :: env where
  "five_scores = whatsapp_up\<lparr>elsevier := (\<lambda>t. Response 200 (Entries (map entry_with_score
            [Some (js ''5''), None, Some (js ''9''), None, Some (js ''3'')]))),
          toNumber := (\<lambda>s. if s = js ''5'' then 5 else if s = js ''9'' then 9 else 3)\<rparr>"

text \<open>An environment with a configured verification secret.\<close>

definition with_secret :: env where
  "with_secret = whatsapp_up\<lparr>VERIFY_TOKEN := Some (js ''s3cret'')\<rparr>"

text \<open>A sender, and selection and text messages from that sender.\<close>

definition user1 :: js_string where
  "user1 = js ''15550001''"

definition button_message :: "string \<Rightarrow> string \<Rightarrow> message_data" where
  "button_message i b =
     \<lparr>msg_from = user1, msg_id = js i, text_body = None,
      msg_interactive = Some (Interactive (Some (ButtonReply (Some (js b)))))\<rparr>"

definition text_message :: "string \<Rightarrow> string \<Rightarrow> message_data" where
  "text_message i t =
     \<lparr>msg_from = user1, msg_id = js i, text_body = Some (js t), msg_interactive = None\<rparr>"

text \<open>The state in which the sender is waiting for a topic.\<close>

definition awaiting_topic :: world where
  "awaiting_topic = start_up\<lparr>userState := [user1 \<mapsto> js ''waiting_for_topic'']\<rparr>"

section \<open>The loop of the outbound messenger\<close>

lemma MAX_pos: "0 < MAX_MESSAGE_LENGTH"
  by (simp add: MAX_MESSAGE_LENGTH_def)

lemma chunks_from_done: "\<not> i < L \<Longrightarrow> 0 < c \<Longrightarrow> chunks_from c L i = 0"
  unfolding chunks_from_def by simp

lemma chunks_from_step:
  assumes a: "i < L" and c: "0 < c"
  shows "chunks_from c L i = Suc (chunks_from c L (i + c))"
proof (cases "i + c \<le> L")
  case True
  then have "L - i + (c - 1) = (L - (i + c) + (c - 1)) + c" by simp
  then have "(L - i + (c - 1)) div c = ((L - (i + c) + (c - 1)) + c) div c"
    by (simp only:)
  also have "\<dots> = (L - (i + c) + (c - 1)) div c + 1"
    using c by (simp only: div_add_self2)
  finally show ?thesis unfolding chunks_from_def by (simp only: Suc_eq_plus1)
next
  case False
  then have z: "L - (i + c) = 0" by simp
  have "c \<le> L - i + (c - 1)" "L - i + (c - 1) < 2 * c" using a c False by simp_all
  then have "(L - i + (c - 1)) div c = 1"
    by (simp add: div_nat_eqI)
  then show ?thesis unfolding chunks_from_def z using c by simp
qed

lemma fetch_delivered:
  "delivered e (length (requests w)) \<Longrightarrow>
   \<exists>st b. ok st \<and> fetch_whatsapp e r w = (Inr (st, b), w\<lparr>requests := requests w @ [r]\<rparr>)"
  by (auto simp: delivered_def fetch_whatsapp_def split: fetch_outcome.splits)

lemma fetch_not_delivered:
  "\<not> delivered e (length (requests w)) \<Longrightarrow>
   (fetch_whatsapp e r w = (Inl FetchError, w\<lparr>requests := requests w @ [r]\<rparr>))
   \<or> (\<exists>st b. \<not> ok st \<and> fetch_whatsapp e r w = (Inr (st, b), w\<lparr>requests := requests w @ [r]\<rparr>))"
  by (auto simp: delivered_def fetch_whatsapp_def split: fetch_outcome.splits)

lemma map_upt_Suc_shift: "map f [0..<Suc n] = f 0 # map (\<lambda>k. f (Suc k)) [0..<n]"
  by (simp add: map_upt_Suc del: upt_Suc)

lemma chunk_request_shift:
  "chunk_request to message i (Suc k) = chunk_request to message (i + MAX_MESSAGE_LENGTH) k"
  by (simp add: chunk_request_def add.assoc add.commute add.left_commute)

lemma chunk_request_0:
  "chunk_request to message i 0 = WhatsAppText to (slice message i (i + MAX_MESSAGE_LENGTH))"
  by (simp add: chunk_request_def)

lemma send_loop_all_delivered:
  "(\<forall>k < chunks_from MAX_MESSAGE_LENGTH (length message) i. delivered e (length (requests w) + k)) \<Longrightarrow>
   send_loop e to message i w =
     (Inr (), w\<lparr>requests := requests w @ map (chunk_request to message i) [0..<chunks_from MAX_MESSAGE_LENGTH (length message) i]\<rparr>)"
proof (induction e to message i w rule: send_loop.induct)
  case (1 e to message i w)
  let ?n = "\<lambda>i. chunks_from MAX_MESSAGE_LENGTH (length message) i"
  show ?case
  proof (cases "i < length message")
    case False
    then have "?n i = 0" by (simp add: chunks_from_done MAX_pos)
    with False show ?thesis
      by (simp add: send_loop.simps [of e to message i w])
  next
    case True
    let ?r = "WhatsAppText to (slice message i (i + MAX_MESSAGE_LENGTH))"
    let ?w' = "w\<lparr>requests := requests w @ [?r]\<rparr>"
    have n: "?n i = Suc (?n (i + MAX_MESSAGE_LENGTH))"
      using True MAX_pos by (rule chunks_from_step)
    from "1.prems" n have d0: "delivered e (length (requests w))"
      by (metis add.right_neutral zero_less_Suc)
    then obtain st b where st: "ok st" and f: "fetch_whatsapp e ?r w = (Inr (st, b), ?w')"
      using fetch_delivered by blast
    have rest: "\<forall>k < ?n (i + MAX_MESSAGE_LENGTH). delivered e (length (requests ?w') + k)"
    proof (intro allI impI)
      fix k assume "k < ?n (i + MAX_MESSAGE_LENGTH)"
      then have "Suc k < ?n i" using n by simp
      with "1.prems" have "delivered e (length (requests w) + Suc k)" by blast
      then show "delivered e (length (requests ?w') + k)" by simp
    qed
    have ih: "send_loop e to message (i + MAX_MESSAGE_LENGTH) ?w' =
      (Inr (), ?w'\<lparr>requests := requests ?w' @ map (chunk_request to message (i + MAX_MESSAGE_LENGTH)) [0..<?n (i + MAX_MESSAGE_LENGTH)]\<rparr>)"
      using "1.IH" [OF True f [symmetric] refl] st rest by simp
    have shift: "map (chunk_request to message i) [0..<?n i]
        = ?r # map (chunk_request to message (i + MAX_MESSAGE_LENGTH)) [0..<?n (i + MAX_MESSAGE_LENGTH)]"
      unfolding n map_upt_Suc_shift chunk_request_shift chunk_request_0 ..
    show ?thesis
      unfolding shift
      using True f st ih
      by (simp add: send_loop.simps [of e to message i w])
  qed
qed

lemma chunk_request_chunk: "chunk_request to message 0 k = WhatsAppText to (chunk message k)"
  by (simp add: chunk_request_def chunk_def)

lemma send_loop_fails_at:
  "j < chunks_from MAX_MESSAGE_LENGTH (length message) i \<Longrightarrow>
   (\<forall>k < j. delivered e (length (requests w) + k)) \<Longrightarrow>
   \<not> delivered e (length (requests w) + j) \<Longrightarrow>
   \<exists>err. (err = FetchError \<or> (\<exists>st. err = WhatsAppApiError st)) \<and>
     send_loop e to message i w =
       (Inl err, w\<lparr>requests := requests w @ map (chunk_request to message i) [0..<Suc j]\<rparr>)"
proof (induction e to message i w arbitrary: j rule: send_loop.induct)
  case (1 e to message i w)
  let ?n = "\<lambda>i. chunks_from MAX_MESSAGE_LENGTH (length message) i"
  let ?r = "WhatsAppText to (slice message i (i + MAX_MESSAGE_LENGTH))"
  let ?w' = "w\<lparr>requests := requests w @ [?r]\<rparr>"
  have True: "i < length message"
    using "1.prems"(1) chunks_from_done [OF _ MAX_pos, of i "length message"] by fastforce
  have n: "?n i = Suc (?n (i + MAX_MESSAGE_LENGTH))"
    using True MAX_pos by (rule chunks_from_step)
  show ?case
  proof (cases j)
    case 0
    with "1.prems"(3) have "\<not> delivered e (length (requests w))" by simp
    from fetch_not_delivered [OF this, of ?r] show ?thesis
    proof
      assume "fetch_whatsapp e ?r w = (Inl FetchError, ?w')"
      then show ?thesis using True 0
        by (simp add: send_loop.simps [of e to message i w] chunk_request_0)
    next
      assume "\<exists>st b. \<not> ok st \<and> fetch_whatsapp e ?r w = (Inr (st, b), ?w')"
      then obtain st b where "\<not> ok st" "fetch_whatsapp e ?r w = (Inr (st, b), ?w')" by blast
      then show ?thesis using True 0
        by (simp add: send_loop.simps [of e to message i w] chunk_request_0)
    qed
  next
    case (Suc j')
    from "1.prems"(2) Suc have "delivered e (length (requests w))"
      by (metis add.right_neutral zero_less_Suc)
    then obtain st b where st: "ok st" and f: "fetch_whatsapp e ?r w = (Inr (st, b), ?w')"
      using fetch_delivered by blast
    have p1: "j' < ?n (i + MAX_MESSAGE_LENGTH)" using "1.prems"(1) n Suc by simp
    have p2: "\<forall>k < j'. delivered e (length (requests ?w') + k)"
    proof (intro allI impI)
      fix k assume "k < j'"
      then have "Suc k < j" using Suc by simp
      with "1.prems"(2) have "delivered e (length (requests w) + Suc k)" by blast
      then show "delivered e (length (requests ?w') + k)" by simp
    qed
    have p3: "\<not> delivered e (length (requests ?w') + j')" using "1.prems"(3) Suc by simp
    from "1.IH" [OF True f [symmetric] refl _ p1 p2 p3] st
    obtain err where err: "err = FetchError \<or> (\<exists>st. err = WhatsAppApiError st)"
      and ih: "send_loop e to message (i + MAX_MESSAGE_LENGTH) ?w' =
         (Inl err, ?w'\<lparr>requests := requests ?w' @ map (chunk_request to message (i + MAX_MESSAGE_LENGTH)) [0..<Suc j']\<rparr>)"
      by auto
    have shift: "map (chunk_request to message i) [0..<Suc j]
        = ?r # map (chunk_request to message (i + MAX_MESSAGE_LENGTH)) [0..<Suc j']"
      unfolding Suc map_upt_Suc_shift [of _ "Suc j'"] chunk_request_shift chunk_request_0 ..
    have "send_loop e to message i w =
       (Inl err, w\<lparr>requests := requests w @ map (chunk_request to message i) [0..<Suc j]\<rparr>)"
      unfolding shift using True f st ih
      by (simp add: send_loop.simps [of e to message i w])
    with err show ?thesis by blast
  qed
qed

lemma sendWhatsAppMessage_send_loop: "sendWhatsAppMessage e to message w = send_loop e to message 0 w"
  by (simp add: sendWhatsAppMessage_def try_catch_def throwP_def split: prod.splits sum.splits)

lemma length_chunk: "length (chunk message k) \<le> MAX_MESSAGE_LENGTH"
  by (simp add: chunk_def slice_def)

lemma concat_chunks: "concat (map (chunk message) [0..<n]) = take (n * MAX_MESSAGE_LENGTH) message"
proof (induction n)
  case 0
  show ?case by simp
next
  case (Suc n)
  have "take (Suc n * MAX_MESSAGE_LENGTH) message
      = take (n * MAX_MESSAGE_LENGTH) message @ take MAX_MESSAGE_LENGTH (drop (n * MAX_MESSAGE_LENGTH) message)"
  proof -
    have "Suc n * MAX_MESSAGE_LENGTH = n * MAX_MESSAGE_LENGTH + MAX_MESSAGE_LENGTH" by simp
    then show ?thesis by (simp only: take_add)
  qed
  with Suc show ?case by (simp add: chunk_def slice_def)
qed

lemma chunks_cover: "0 < c \<Longrightarrow> L \<le> ((L + (c - 1)) div c) * c" for c L :: nat
proof -
  assume c: "0 < c"
  have "L + (c - 1) = ((L + (c - 1)) div c) * c + (L + (c - 1)) mod c" by simp
  moreover have "(L + (c - 1)) mod c \<le> c - 1" using c
    by (metis Suc_pred' less_Suc_eq_le mod_less_divisor)
  ultimately show ?thesis by linarith
qed

lemma ceil_4096: "(L + 4095) div 4096 = chunks_from MAX_MESSAGE_LENGTH L 0"
  by (simp add: chunks_from_def MAX_MESSAGE_LENGTH_def)

lemma chunk_replicate: "chunk (replicate 5000 c) 0 = replicate 4096 c" "chunk (replicate 5000 c) (Suc 0) = replicate 904 c"
  by (simp_all add: chunk_def slice_def MAX_MESSAGE_LENGTH_def)

lemma upt2: "[0..<2] = [0, Suc 0]"
  by (simp add: upt_rec)

section \<open>Chunking of a text reply\<close>

text \<open>
  C5. When every chunk is delivered, \<open>sendWhatsAppMessage\<close> returns normally and has
  issued, after the requests that went before, exactly \<open>ceil(L / 4096)\<close> text requests to
  the recipient, request \<open>k\<close> carrying chunk \<open>k\<close> of the text; nothing else of the state
  changes. Every chunk has at most 4096 code units, and the chunks in the order sent
  concatenate to the text.
\<close>

theorem sendWhatsAppMessage_chunks:
  assumes "\<forall>k < (length message + 4095) div 4096. delivered e (length (requests w) + k)"
  shows "sendWhatsAppMessage e to message w =
           (Inr (), w\<lparr>requests := requests w @
              map (\<lambda>k. WhatsAppText to (chunk message k)) [0..<(length message + 4095) div 4096]\<rparr>)
         \<and> (\<forall>k. length (chunk message k) \<le> 4096)
         \<and> concat (map (chunk message) [0..<(length message + 4095) div 4096]) = message"
proof (intro conjI)
  show "sendWhatsAppMessage e to message w =
           (Inr (), w\<lparr>requests := requests w @
              map (\<lambda>k. WhatsAppText to (chunk message k)) [0..<(length message + 4095) div 4096]\<rparr>)"
    using assms send_loop_all_delivered [of message 0 e w to]
    unfolding ceil_4096 sendWhatsAppMessage_send_loop chunk_request_chunk by simp
  show "\<forall>k. length (chunk message k) \<le> 4096"
    using length_chunk by (simp add: MAX_MESSAGE_LENGTH_def)
  have "length message \<le> chunks_from MAX_MESSAGE_LENGTH (length message) 0 * MAX_MESSAGE_LENGTH"
    using chunks_cover [OF MAX_pos] by (simp add: chunks_from_def)
  then show "concat (map (chunk message) [0..<(length message + 4095) div 4096]) = message"
    unfolding ceil_4096 concat_chunks by simp
qed

theorem sendWhatsAppMessage_chunks_witness:
  "sendWhatsAppMessage whatsapp_up (js ''15550001'') (replicate 5000 97) start_up =
     (Inr (), start_up\<lparr>requests := [WhatsAppText (js ''15550001'') (replicate 4096 97),
                                WhatsAppText (js ''15550001'') (replicate 904 97)]\<rparr>)
   \<and> replicate 4096 97 @ replicate 904 97 = (replicate 5000 97 :: js_string)"
proof -
  have d: "\<forall>k < (length (replicate 5000 (97 :: 16 word)) + 4095) div 4096. delivered whatsapp_up (length (requests start_up) + k)"
    by (simp add: delivered_def whatsapp_up_def ok_def)
  from sendWhatsAppMessage_chunks [OF d, of "js ''15550001''"]
  show ?thesis
    by (simp add: upt2 chunk_replicate start_up_def replicate_add [symmetric])
qed

section \<open>A failing chunk\<close>

lemma chunk_replicate_9000:
  "chunk (replicate 9000 c) 0 = replicate 4096 c" "chunk (replicate 9000 c) (Suc 0) = replicate 4096 c"
  by (simp_all add: chunk_def slice_def MAX_MESSAGE_LENGTH_def)

text \<open>
  C8. When chunk \<open>i\<close> of a text is the first that is not delivered (the transport
  rejects the POST or answers with a status outside 200..299), \<open>sendWhatsAppMessage\<close>
  throws a delivery error, and the requests it has issued are those for chunks \<open>0..i\<close>
  in order, the last being the failed one: no chunk after position \<open>i\<close> is sent.
\<close>

theorem sendWhatsAppMessage_aborts:
  assumes "i < (length message + 4095) div 4096"
    and "\<forall>k < i. delivered e (length (requests w) + k)"
    and "\<not> delivered e (length (requests w) + i)"
  shows "\<exists>err. (err = FetchError \<or> (\<exists>st. err = WhatsAppApiError st)) \<and>
           sendWhatsAppMessage e to message w =
             (Inl err, w\<lparr>requests := requests w @
                map (\<lambda>k. WhatsAppText to (chunk message k)) [0..<Suc i]\<rparr>)"
  using send_loop_fails_at [of i message 0 e w to] assms
  unfolding ceil_4096 sendWhatsAppMessage_send_loop chunk_request_chunk by simp

theorem sendWhatsAppMessage_aborts_witness:
  "\<exists>err. (err = FetchError \<or> (\<exists>st. err = WhatsAppApiError st)) \<and>
     sendWhatsAppMessage whatsapp_first_only (js ''15550001'') (replicate 9000 97) start_up =
       (Inl err, start_up\<lparr>requests := [WhatsAppText (js ''15550001'') (replicate 4096 97),
                                   WhatsAppText (js ''15550001'') (replicate 4096 97)]\<rparr>)"
proof -
  have a: "1 < (length (replicate 9000 (97 :: 16 word)) + 4095) div 4096" by simp
  have b: "\<forall>k < 1. delivered whatsapp_first_only (length (requests start_up) + k)"
    by (simp add: delivered_def whatsapp_first_only_def whatsapp_up_def ok_def start_up_def)
  have c: "\<not> delivered whatsapp_first_only (length (requests start_up) + 1)"
    by (simp add: delivered_def whatsapp_first_only_def whatsapp_up_def ok_def start_up_def)
  from sendWhatsAppMessage_aborts [OF a b c, of "js ''15550001''"]
  show ?thesis
    by (simp add: upt2 chunk_replicate_9000 start_up_def)
qed

section \<open>Ranking of the journal records\<close>

lemma ranked_iff: "ranked e a b \<longleftrightarrow> \<not> compareFn e b a < 0"
  by (auto simp: ranked_def compareFn_def)

lemma set_insert_by: "set (insert_by cmp x ys) = insert x (set ys)"
  by (induction ys) auto

lemma mset_insert_by: "mset (insert_by cmp x ys) = add_mset x (mset ys)"
  by (induction ys) auto

lemma mset_foldl_insert_by:
  "mset (foldl (\<lambda>sorted x. insert_by cmp x sorted) acc xs) = mset acc + mset xs"
  by (induction xs arbitrary: acc) (auto simp: mset_insert_by)

lemma mset_Array_sort: "mset (Array_sort cmp xs) = mset xs"
  by (simp add: Array_sort_def mset_foldl_insert_by)

lemma compareFn_asym: "compareFn e x y < 0 \<Longrightarrow> ranked e x y"
  by (auto simp: ranked_def compareFn_def split: if_splits)

lemma compareFn_trans: "compareFn e x y < 0 \<Longrightarrow> ranked e y z \<Longrightarrow> ranked e x z"
  by (auto simp: ranked_def compareFn_def split: if_splits)

lemma sorted_insert_by:
  "sorted_wrt (ranked e) ys \<Longrightarrow> sorted_wrt (ranked e) (insert_by (compareFn e) x ys)"
proof (induction ys)
  case Nil
  show ?case by simp
next
  case (Cons y ys)
  show ?case
  proof (cases "compareFn e x y < 0")
    case True
    then have "ranked e x y" by (rule compareFn_asym)
    moreover have "\<forall>z \<in> set ys. ranked e x z"
      using True Cons.prems compareFn_trans by auto
    ultimately show ?thesis using True Cons.prems by simp
  next
    case False
    then have "ranked e y x" by (simp add: ranked_iff)
    then show ?thesis using False Cons by (auto simp: set_insert_by)
  qed
qed

lemma sorted_foldl_insert_by:
  "sorted_wrt (ranked e) acc \<Longrightarrow>
   sorted_wrt (ranked e) (foldl (\<lambda>sorted x. insert_by (compareFn e) x sorted) acc xs)"
  by (induction xs arbitrary: acc) (auto simp: sorted_insert_by)

lemma sorted_Array_sort: "sorted_wrt (ranked e) (Array_sort (compareFn e) xs)"
  by (simp add: Array_sort_def sorted_foldl_insert_by)

lemma sorted_wrt_take': "sorted_wrt P xs \<Longrightarrow> sorted_wrt P (take n xs)"
  by (metis append_take_drop_id sorted_wrt_append)

lemma extract_entry: "extract_journal (entry_with_score s) = Inr (journal_with_score (or_NA s))"
  by (simp add: extract_journal_def entry_with_score_def journal_with_score_def or_NA_def js_def)

lemma or_NA_simps: "or_NA None = js ''N/A''" "or_NA (Some (js ''5'')) = js ''5''"
  "or_NA (Some (js ''9'')) = js ''9''" "or_NA (Some (js ''3'')) = js ''3''"
  by (simp_all add: or_NA_def js_def)

text \<open>
  C6. When the backend answers with a success status and an entry list from which every
  record can be extracted, \<open>searchJournals\<close> returns the first 20 records (all of them
  when there are fewer) of the extracted records sorted: the sorted list is a
  permutation of the extracted records in which every record with a numeric score
  stands before every record with an unknown score, and the numeric scores descend.
  The witness is the answer with scores 5, unknown, 9, unknown, 3, returned in the order
  9, 5, 3, unknown, unknown.
\<close>

theorem searchJournals_ranked:
  assumes "elsevier e t = Response st (Entries entries)" and "ok st"
    and "map_extract entries = Inr rs"
  shows "searchJournals e t w =
           (Inr (take 20 (Array_sort (compareFn e) rs)), w\<lparr>requests := requests w @ [ElsevierGet t]\<rparr>)
         \<and> mset (Array_sort (compareFn e) rs) = mset rs
         \<and> sorted_wrt (ranked e) (Array_sort (compareFn e) rs)
         \<and> sorted_wrt (ranked e) (take 20 (Array_sort (compareFn e) rs))
         \<and> length (take 20 (Array_sort (compareFn e) rs)) \<le> 20"
proof (intro conjI)
  show "searchJournals e t w =
           (Inr (take 20 (Array_sort (compareFn e) rs)), w\<lparr>requests := requests w @ [ElsevierGet t]\<rparr>)"
    using assms
    by (simp add: searchJournals_def try_catch_def bindP_def fetch_elsevier_def returnP_def slice_def)
  show "mset (Array_sort (compareFn e) rs) = mset rs" by (rule mset_Array_sort)
  show "sorted_wrt (ranked e) (Array_sort (compareFn e) rs)" by (rule sorted_Array_sort)
  then show "sorted_wrt (ranked e) (take 20 (Array_sort (compareFn e) rs))" by (rule sorted_wrt_take')
  show "length (take 20 (Array_sort (compareFn e) rs)) \<le> 20" by simp
qed

theorem searchJournals_ranked_witness:
  "searchJournals five_scores (js ''nature'') start_up =
     (Inr (map journal_with_score [js ''9'', js ''5'', js ''3'', js ''N/A'', js ''N/A'']),
      start_up\<lparr>requests := [ElsevierGet (js ''nature'')]\<rparr>)
   \<and> sorted_wrt (ranked five_scores) (map journal_with_score [js ''9'', js ''5'', js ''3'', js ''N/A'', js ''N/A''])"
proof -
  let ?rs = "map journal_with_score [js ''5'', js ''N/A'', js ''9'', js ''N/A'', js ''3'']"
  have a: "elsevier five_scores (js ''nature'') = Response 200 (Entries (map entry_with_score
            [Some (js ''5''), None, Some (js ''9''), None, Some (js ''3'')]))"
    by (simp add: five_scores_def)
  have b: "ok 200" by (simp add: ok_def)
  have c: "map_extract (map entry_with_score
            [Some (js ''5''), None, Some (js ''9''), None, Some (js ''3'')]) = Inr ?rs"
    by (simp add: extract_entry or_NA_simps)
  have s: "Array_sort (compareFn five_scores) ?rs = map journal_with_score [js ''9'', js ''5'', js ''3'', js ''N/A'', js ''N/A'']"
    by (simp add: Array_sort_def compareFn_def journal_with_score_def five_scores_def whatsapp_up_def js_def)
  from searchJournals_ranked [OF a b c, of start_up]
  show ?thesis unfolding s by (simp add: start_up_def)
qed

section \<open>The verification endpoint\<close>

text \<open>
  C7, as amended. For a GET verification request: when the mode is \<open>subscribe\<close> and
  the token is a non-empty string equal to the configured secret, the handler sends
  status 200 with the challenge as body; when mode and token are both non-empty strings
  and the mode is not \<open>subscribe\<close> or the token is not the configured secret, it sends
  status 403; when the mode or the token is missing or is the empty string, it sends no
  response. Every request falls under one of the three cases.
\<close>

theorem get_webhook_verification:
  "(hub_mode q = Some (js ''subscribe'') \<and> hub_verify_token q = Some t \<and> t \<noteq> []
      \<and> VERIFY_TOKEN e = Some t
      \<longrightarrow> get_webhook e q = Some (Send 200 (hub_challenge q)))
   \<and> (hub_mode q = Some m \<and> m \<noteq> [] \<and> hub_verify_token q = Some t \<and> t \<noteq> []
      \<and> (m \<noteq> js ''subscribe'' \<or> VERIFY_TOKEN e \<noteq> Some t)
      \<longrightarrow> get_webhook e q = Some (SendStatus 403))
   \<and> (hub_mode q = None \<or> hub_mode q = Some [] \<or> hub_verify_token q = None
        \<or> hub_verify_token q = Some []
      \<longrightarrow> get_webhook e q = None)"
proof (intro conjI impI)
  assume "hub_mode q = Some (js ''subscribe'') \<and> hub_verify_token q = Some t \<and> t \<noteq> []
      \<and> VERIFY_TOKEN e = Some t"
  then show "get_webhook e q = Some (Send 200 (hub_challenge q))"
    by (simp add: get_webhook_def truthy_def js_def)
next
  assume "hub_mode q = Some m \<and> m \<noteq> [] \<and> hub_verify_token q = Some t \<and> t \<noteq> []
      \<and> (m \<noteq> js ''subscribe'' \<or> VERIFY_TOKEN e \<noteq> Some t)"
  then show "get_webhook e q = Some (SendStatus 403)"
    by (auto simp: get_webhook_def truthy_def)
next
  assume "hub_mode q = None \<or> hub_mode q = Some [] \<or> hub_verify_token q = None
        \<or> hub_verify_token q = Some []"
  then show "get_webhook e q = None"
    by (auto simp: get_webhook_def truthy_def)
qed

theorem get_webhook_verification_witness:
  "get_webhook with_secret \<lparr>hub_mode = Some (js ''subscribe''), hub_verify_token = Some (js ''s3cret''),
                    hub_challenge = Some (js ''1158201444'')\<rparr>
     = Some (Send 200 (Some (js ''1158201444'')))
   \<and> get_webhook with_secret \<lparr>hub_mode = Some (js ''subscribe''), hub_verify_token = Some (js ''guess''),
                      hub_challenge = Some (js ''1158201444'')\<rparr>
     = Some (SendStatus 403)
   \<and> get_webhook with_secret \<lparr>hub_mode = None, hub_verify_token = None,
                      hub_challenge = Some (js ''1158201444'')\<rparr>
     = None"
proof -
  let ?q1 = "\<lparr>hub_mode = Some (js ''subscribe''), hub_verify_token = Some (js ''s3cret''),
               hub_challenge = Some (js ''1158201444'')\<rparr>"
  let ?q2 = "\<lparr>hub_mode = Some (js ''subscribe''), hub_verify_token = Some (js ''guess''),
               hub_challenge = Some (js ''1158201444'')\<rparr>"
  let ?q3 = "\<lparr>hub_mode = None, hub_verify_token = None,
               hub_challenge = Some (js ''1158201444'')\<rparr>"
  have 1: "get_webhook with_secret ?q1 = Some (Send 200 (hub_challenge ?q1))"
    using get_webhook_verification [of ?q1 "js ''s3cret''" with_secret]
    by (simp add: with_secret_def whatsapp_up_def js_def)
  have 2: "get_webhook with_secret ?q2 = Some (SendStatus 403)"
    using get_webhook_verification [of ?q2 "js ''guess''" with_secret "js ''subscribe''"]
    by (simp add: with_secret_def whatsapp_up_def js_def)
  have 3: "get_webhook with_secret ?q3 = None"
    using get_webhook_verification [of ?q3 _ with_secret]
    by simp
  from 1 2 3 show ?thesis by simp
qed

text \<open>
  A parameter that is present but empty counts as missing. With an empty mode and the
  right token both parameters are present and the mode is wrong, yet the handler sends
  nothing where status 403 was to be expected; with the secret configured as the empty
  string, the mode \<open>subscribe\<close> and an empty token that equals the secret, it sends
  nothing where the challenge was to be expected.
\<close>

theorem empty_parameter_counterexample:
  "get_webhook with_secret \<lparr>hub_mode = Some [], hub_verify_token = Some (js ''s3cret''),
                            hub_challenge = Some (js ''1158201444'')\<rparr> = None
   \<and> get_webhook with_secret \<lparr>hub_mode = Some [], hub_verify_token = Some (js ''s3cret''),
                            hub_challenge = Some (js ''1158201444'')\<rparr> \<noteq> Some (SendStatus 403)
   \<and> get_webhook (with_secret\<lparr>VERIFY_TOKEN := Some []\<rparr>)
         \<lparr>hub_mode = Some (js ''subscribe''), hub_verify_token = Some [],
          hub_challenge = Some (js ''1158201444'')\<rparr> = None
   \<and> get_webhook (with_secret\<lparr>VERIFY_TOKEN := Some []\<rparr>)
         \<lparr>hub_mode = Some (js ''subscribe''), hub_verify_token = Some [],
          hub_challenge = Some (js ''1158201444'')\<rparr> \<noteq> Some (Send 200 (Some (js ''1158201444'')))"
  by (simp add: get_webhook_def truthy_def)

section \<open>What the dispatcher changes\<close>

subsection \<open>Messenger and adapters only issue requests\<close>

lemma req_only_refl: "req_only w w"
  by (auto simp: req_only_def intro: exI [of _ "[]"])

lemma req_only_trans: "req_only w w' \<Longrightarrow> req_only w' w'' \<Longrightarrow> req_only w w''"
  by (auto simp: req_only_def)

lemma req_only_fields:
  "req_only w w' \<Longrightarrow> processedMessages w' = processedMessages w \<and> userState w' = userState w
     \<and> length (requests w) \<le> length (requests w')"
  by (auto simp: req_only_def)

lemma fetch_whatsapp_req_only: "fetch_whatsapp e r w = (x, w') \<Longrightarrow> req_only w w'"
  by (auto simp: fetch_whatsapp_def req_only_def split: fetch_outcome.splits)

lemma send_loop_req_only: "send_loop e to message i w = (x, w') \<Longrightarrow> req_only w w'"
proof (induction e to message i w arbitrary: x w' rule: send_loop.induct)
  case (1 e to message i w)
  show ?case
  proof (cases "i < length message")
    case False
    with "1.prems" show ?thesis
      by (simp add: send_loop.simps [of e to message i w] req_only_refl)
  next
    case True
    let ?r = "WhatsAppText to (slice message i (i + MAX_MESSAGE_LENGTH))"
    obtain y v where f: "fetch_whatsapp e ?r w = (y, v)" by (cases "fetch_whatsapp e ?r w")
    then have wv: "req_only w v" by (rule fetch_whatsapp_req_only)
    show ?thesis
    proof (cases y)
      case (Inl err)
      with True f "1.prems" wv show ?thesis
        by (simp add: send_loop.simps [of e to message i w])
    next
      case (Inr response)
      show ?thesis
      proof (cases "ok (fst response)")
        case False
        with Inr True f "1.prems" wv show ?thesis
          by (simp add: send_loop.simps [of e to message i w])
      next
        case ok: True
        with Inr True f "1.prems"
        have "send_loop e to message (i + MAX_MESSAGE_LENGTH) v = (x, w')"
          by (simp add: send_loop.simps [of e to message i w])
        from "1.IH" [OF True _ refl _ this] f Inr ok have "req_only v w'" by simp
        with wv show ?thesis by (rule req_only_trans)
      qed
    qed
  qed
qed

lemma sendWhatsAppMessage_req_only: "sendWhatsAppMessage e to message w = (x, w') \<Longrightarrow> req_only w w'"
  unfolding sendWhatsAppMessage_send_loop by (rule send_loop_req_only)

lemma sendGreeting_req_only: "sendGreeting e phoneNumber w = (x, w') \<Longrightarrow> req_only w w'"
  by (auto simp: sendGreeting_def sendWhatsAppMessageWithButtons_def try_catch_def bindP_def
        throwP_def returnP_def split: prod.splits sum.splits if_splits
        dest: fetch_whatsapp_req_only)

lemma generateTitles_req_only: "generateTitles e topic w = (x, w') \<Longrightarrow> req_only w w'"
  by (auto simp: generateTitles_def try_catch_def bindP_def throwP_def returnP_def
        call_generateContent_def req_only_def
        split: prod.splits sum.splits if_splits option.splits intro: exI [of _ "[]"])

lemma searchJournals_req_only: "searchJournals e t w = (x, w') \<Longrightarrow> req_only w w'"
  by (auto simp: searchJournals_def try_catch_def bindP_def throwP_def returnP_def
        fetch_elsevier_def req_only_def
        split: prod.splits sum.splits if_splits search_body.splits fetch_outcome.splits)

subsection \<open>One dispatch changes at most the entry of the sender\<close>

lemma req_only_step: "req_only w w' \<Longrightarrow> step_of p w w'"
  by (auto simp: req_only_def step_of_def)

lemma set_then_req_only:
  "v = js ''waiting_for_topic'' \<or> v = js ''waiting_for_journal_title'' \<Longrightarrow>
   req_only (set_userState p v w) w' \<Longrightarrow> step_of p w w'"
  by (cases "p = js ''__proto__''") (auto simp: req_only_def step_of_def set_userState_def)

lemma req_only_then_delete: "req_only w w' \<Longrightarrow> step_of p w (delete_userState p w')"
  by (auto simp: req_only_def step_of_def delete_userState_def)

lemma button_branch_step: "button_branch e p b w = (x, w') \<Longrightarrow> step_of p w w'"
  by (auto simp: button_branch_def bindP_def modify_def returnP_def req_only_refl
        split: if_splits
        intro: req_only_step set_then_req_only dest!: sendWhatsAppMessage_req_only)

lemma topic_branch_step: "topic_branch e p m w = (x, w') \<Longrightarrow> step_of p w w'"
  by (auto simp: topic_branch_def try_catch_def bindP_def modify_def
        split: prod.splits sum.splits
        dest!: sendWhatsAppMessage_req_only generateTitles_req_only
        intro: req_only_step req_only_then_delete req_only_trans)

lemma journal_branch_step: "journal_branch e p m w = (x, w') \<Longrightarrow> step_of p w w'"
  by (auto simp: journal_branch_def try_catch_def bindP_def modify_def
        split: prod.splits sum.splits if_splits
        dest!: sendWhatsAppMessage_req_only searchJournals_req_only
        intro: req_only_step req_only_then_delete req_only_trans)

lemma dispatch_step: "dispatch e md p m w = (x, w') \<Longrightarrow> step_of p w w'"
  by (auto simp: dispatch_def throwP_def returnP_def req_only_refl
        split: option.splits if_splits
        dest: button_branch_step topic_branch_step journal_branch_step sendGreeting_req_only
        intro: req_only_step)

lemma post_webhook_step:
  "post_webhook e b w = (r, w') \<Longrightarrow>
   w' = w \<or> (\<exists>md. b = Message md \<and>
     step_of (msg_from md) (w\<lparr>processedMessages := insert (msg_id md) (processedMessages w)\<rparr>) w')"
  by (auto simp: post_webhook_def Let_def split: webhook_body.splits if_splits prod.splits sum.splits
        dest: dispatch_step)

lemma ran_upd_subset: "ran m \<subseteq> S \<Longrightarrow> v \<in> S \<Longrightarrow> ran (m(k \<mapsto> v)) \<subseteq> S"
  by (auto simp: ran_def split: if_splits)

lemma ran_del_subset: "ran m \<subseteq> S \<Longrightarrow> ran (m(k := None)) \<subseteq> S"
  by (auto simp: ran_def split: if_splits)

lemma step_of_pending:
  "step_of p w w' \<Longrightarrow> ran (userState w) \<subseteq> pending_values \<Longrightarrow> ran (userState w') \<subseteq> pending_values"
  unfolding step_of_def
  by (elim conjE disjE) (simp_all add: ran_upd_subset ran_del_subset pending_values_def)

lemma post_webhook_pending:
  "ran (userState w) \<subseteq> pending_values \<Longrightarrow>
   ran (userState (snd (post_webhook e b w))) \<subseteq> pending_values"
proof -
  assume a: "ran (userState w) \<subseteq> pending_values"
  obtain r w' where p: "post_webhook e b w = (r, w')" by (cases "post_webhook e b w")
  from post_webhook_step [OF p] show ?thesis
  proof
    assume "w' = w" with a p show ?thesis by simp
  next
    assume "\<exists>md. b = Message md \<and>
      step_of (msg_from md) (w\<lparr>processedMessages := insert (msg_id md) (processedMessages w)\<rparr>) w'"
    then obtain md :: message_data where
      "step_of (msg_from md) (w\<lparr>processedMessages := insert (msg_id md) (processedMessages w)\<rparr>) w'"
      by auto
    from step_of_pending [OF this] a p show ?thesis by simp
  qed
qed

lemma run_pending:
  "ran (userState w) \<subseteq> pending_values \<Longrightarrow> ran (userState (run evs w)) \<subseteq> pending_values"
  by (induction evs arbitrary: w) (auto simp: post_webhook_pending)

subsection \<open>A text of a single chunk\<close>

lemma chunks_from_one: "0 < L \<Longrightarrow> L \<le> c \<Longrightarrow> chunks_from c L 0 = 1"
proof -
  assume a: "0 < L" "L \<le> c"
  then have "c \<le> L + (c - 1)" "L + (c - 1) < 2 * c" by simp_all
  then have "(L + (c - 1)) div c = 1" by (simp add: div_nat_eqI)
  then show ?thesis by (simp add: chunks_from_def)
qed

lemma chunk_request_whole:
  "length message \<le> MAX_MESSAGE_LENGTH \<Longrightarrow> chunk_request to message 0 0 = WhatsAppText to message"
  by (simp add: chunk_request_def slice_def)

lemma send_short_delivered:
  assumes "message \<noteq> []" and "length message \<le> MAX_MESSAGE_LENGTH"
    and "delivered e (length (requests w))"
  shows "sendWhatsAppMessage e to message w =
           (Inr (), w\<lparr>requests := requests w @ [WhatsAppText to message]\<rparr>)"
proof -
  have n: "chunks_from MAX_MESSAGE_LENGTH (length message) 0 = 1"
    using assms(1,2) by (simp add: chunks_from_one)
  have "\<forall>k < chunks_from MAX_MESSAGE_LENGTH (length message) 0. delivered e (length (requests w) + k)"
    unfolding n using assms(3) by simp
  from send_loop_all_delivered [OF this, of to] show ?thesis
    unfolding n sendWhatsAppMessage_send_loop
    by (simp add: chunk_request_whole [OF assms(2)])
qed

lemma send_short_failed:
  assumes "message \<noteq> []" and "length message \<le> MAX_MESSAGE_LENGTH"
    and "\<not> delivered e (length (requests w))"
  shows "\<exists>err. sendWhatsAppMessage e to message w =
           (Inl err, w\<lparr>requests := requests w @ [WhatsAppText to message]\<rparr>)"
proof -
  have n: "0 < chunks_from MAX_MESSAGE_LENGTH (length message) 0"
    using assms(1,2) by (simp add: chunks_from_one)
  from send_loop_fails_at [OF n, of e w to] assms(3) show ?thesis
    unfolding sendWhatsAppMessage_send_loop
    by (auto simp: chunk_request_whole [OF assms(2)])
qed

subsection \<open>String literals\<close>

lemma js_Nil_iff: "js s = [] \<longleftrightarrow> s = []"
  by (simp add: js_def)

lemma js_inject: "js s = js t \<longleftrightarrow> s = t"
proof -
  have "inj (of_char :: char \<Rightarrow> 16 word)"
  proof (rule injI)
    fix x y :: char
    assume "(of_char x :: 16 word) = of_char y"
    then have "unat (of_char x :: 16 word) = unat (of_char y :: 16 word)" by simp
    moreover have "unat (of_char c :: 16 word) = of_char c" for c :: char
    proof -
      have "(of_char c :: 16 word) = of_nat (of_char c)" by (simp only: of_nat_of_char)
      moreover have "(of_char c :: nat) < 65536"
        using nat_of_char_less_256 [of c] by linarith
      then have "(of_char c :: nat) mod 2 ^ LENGTH(16) = of_char c" by simp
      ultimately show ?thesis by (simp only: unat_of_nat)
    qed
    ultimately show "x = y" by simp
  qed
  then show ?thesis by (simp add: js_def inj_map_eq_map)
qed

subsection \<open>When every POST is accepted\<close>





lemma fetch_accepted:
  "accepted e (length (requests w)) \<Longrightarrow>
   \<exists>st. ok st \<and> fetch_whatsapp e r w = (Inr (st, True), w\<lparr>requests := requests w @ [r]\<rparr>)"
  by (auto simp: accepted_def fetch_whatsapp_def split: fetch_outcome.splits)

lemma buttons_accepted:
  assumes "accepted e (length (requests w))"
  shows "sendWhatsAppMessageWithButtons e to message buttons w =
           (Inr (), w\<lparr>requests := requests w @ [WhatsAppButtons to message buttons]\<rparr>)"
proof -
  from fetch_accepted [OF assms, of "WhatsAppButtons to message buttons"]
  obtain st where "ok st"
    and "fetch_whatsapp e (WhatsAppButtons to message buttons) w
           = (Inr (st, True), w\<lparr>requests := requests w @ [WhatsAppButtons to message buttons]\<rparr>)"
    by blast
  then show ?thesis
    by (simp add: sendWhatsAppMessageWithButtons_def try_catch_def bindP_def returnP_def)
qed






subsection \<open>When the adapter fails\<close>

lemma generateTitles_no_send:
  "generateTitles e m w = (r, v) \<Longrightarrow> filter is_send (drop (length (requests w)) (requests v)) = []"
  by (auto simp: generateTitles_def try_catch_def bindP_def throwP_def returnP_def
        call_generateContent_def is_send_def
        split: prod.splits sum.splits if_splits option.splits)

lemma searchJournals_no_send:
  "searchJournals e m w = (r, v) \<Longrightarrow> filter is_send (drop (length (requests w)) (requests v)) = []"
  by (auto simp: searchJournals_def try_catch_def bindP_def throwP_def returnP_def
        fetch_elsevier_def is_send_def
        split: prod.splits sum.splits if_splits search_body.splits fetch_outcome.splits)

lemma retry_topic_short:
  "js ''Error processing your message. Please try again.'' \<noteq> []"
  "length (js ''Error processing your message. Please try again.'') \<le> MAX_MESSAGE_LENGTH"
  by (simp_all add: js_def MAX_MESSAGE_LENGTH_def)

lemma retry_journal_short:
  "js ''Error searching journals. Please try again.'' \<noteq> []"
  "length (js ''Error searching journals. Please try again.'') \<le> MAX_MESSAGE_LENGTH"
  by (simp_all add: js_def MAX_MESSAGE_LENGTH_def)

lemma prompt_topic_short:
  "js ''Please enter the topic for your research paper:'' \<noteq> []"
  "length (js ''Please enter the topic for your research paper:'') \<le> MAX_MESSAGE_LENGTH"
  by (simp_all add: js_def MAX_MESSAGE_LENGTH_def)

lemma prompt_journal_short:
  "js ''Please enter the journal title to search for:'' \<noteq> []"
  "length (js ''Please enter the journal title to search for:'') \<le> MAX_MESSAGE_LENGTH"
  by (simp_all add: js_def MAX_MESSAGE_LENGTH_def)

lemma topic_branch_adapter_fails:
  assumes g: "generateTitles e m w = (Inl err, v)" and d: "delivered e (length (requests v))"
  shows "topic_branch e p m w =
           (Inr (), v\<lparr>userState := (userState v)(p := None),
                      requests := requests v @
                        [WhatsAppText p (js ''Error processing your message. Please try again.'')]\<rparr>)"
  using g send_short_delivered [OF retry_topic_short d, of p]
  by (simp add: topic_branch_def try_catch_def bindP_def modify_def delete_userState_def)

lemma journal_branch_adapter_fails:
  assumes g: "searchJournals e m w = (Inl err, v)" and d: "delivered e (length (requests v))"
  shows "journal_branch e p m w =
           (Inr (), v\<lparr>userState := (userState v)(p := None),
                      requests := requests v @
                        [WhatsAppText p (js ''Error searching journals. Please try again.'')]\<rparr>)"
  using g send_short_delivered [OF retry_journal_short d, of p]
  by (simp add: journal_branch_def try_catch_def bindP_def modify_def delete_userState_def)

subsection \<open>Single events\<close>

lemma post_webhook_duplicate:
  "msg_id md \<in> processedMessages w \<Longrightarrow>
   post_webhook e (Message md) w = (Send 200 (Some (js ''Message already processed'')), w)"
  by (simp add: post_webhook_def)

lemma button_event:
  assumes i: "msg_interactive md = Some (Interactive (Some (ButtonReply (Some b))))"
    and f: "msg_id md \<notin> processedMessages w" and p: "msg_from md \<noteq> js ''__proto__''"
  shows "(b = js ''get_topics'' \<longrightarrow>
          post_webhook e (Message md) w =
            (if delivered e (length (requests w)) then SendStatus 200 else SendStatus 500,
             w\<lparr>processedMessages := insert (msg_id md) (processedMessages w),
               userState := (userState w)(msg_from md \<mapsto> js ''waiting_for_topic''),
               requests := requests w @
                 [WhatsAppText (msg_from md) (js ''Please enter the topic for your research paper:'')]\<rparr>))
       \<and> (b = js ''search_journals'' \<longrightarrow>
          post_webhook e (Message md) w =
            (if delivered e (length (requests w)) then SendStatus 200 else SendStatus 500,
             w\<lparr>processedMessages := insert (msg_id md) (processedMessages w),
               userState := (userState w)(msg_from md \<mapsto> js ''waiting_for_journal_title''),
               requests := requests w @
                 [WhatsAppText (msg_from md) (js ''Please enter the journal title to search for:'')]\<rparr>))"
proof -
  have one: "post_webhook e (Message md) w =
            (if delivered e (length (requests w)) then SendStatus 200 else SendStatus 500,
             w\<lparr>processedMessages := insert (msg_id md) (processedMessages w),
               userState := (userState w)(msg_from md \<mapsto> v),
               requests := requests w @ [WhatsAppText (msg_from md) t]\<rparr>)"
    if br: "\<And>w'. button_branch e (msg_from md) (Some b) w' =
              sendWhatsAppMessage e (msg_from md) t (set_userState (msg_from md) v w')"
      and t: "t \<noteq> []" "length t \<le> MAX_MESSAGE_LENGTH" for v t
  proof -
    let ?wb = "set_userState (msg_from md) v
                 (w\<lparr>processedMessages := insert (msg_id md) (processedMessages w)\<rparr>)"
    have r: "requests ?wb = requests w" using p by (simp add: set_userState_def)
    show ?thesis
    proof (cases "delivered e (length (requests w))")
      case True
      then have "delivered e (length (requests ?wb))" by (simp add: r)
      from send_short_delivered [OF t this, of "msg_from md"] True i f p show ?thesis
        by (simp add: post_webhook_def Let_def dispatch_def br set_userState_def)
    next
      case False
      then have "\<not> delivered e (length (requests ?wb))" by (simp add: r)
      from send_short_failed [OF t this, of "msg_from md"] False i f p show ?thesis
        by (auto simp: post_webhook_def Let_def dispatch_def br set_userState_def)
    qed
  qed
  show ?thesis
  proof (intro conjI impI)
    assume b: "b = js ''get_topics''"
    show "post_webhook e (Message md) w =
            (if delivered e (length (requests w)) then SendStatus 200 else SendStatus 500,
             w\<lparr>processedMessages := insert (msg_id md) (processedMessages w),
               userState := (userState w)(msg_from md \<mapsto> js ''waiting_for_topic''),
               requests := requests w @
                 [WhatsAppText (msg_from md) (js ''Please enter the topic for your research paper:'')]\<rparr>)"
      by (rule one) (simp_all add: b button_branch_def bindP_def modify_def prompt_topic_short)
  next
    assume b: "b = js ''search_journals''"
    show "post_webhook e (Message md) w =
            (if delivered e (length (requests w)) then SendStatus 200 else SendStatus 500,
             w\<lparr>processedMessages := insert (msg_id md) (processedMessages w),
               userState := (userState w)(msg_from md \<mapsto> js ''waiting_for_journal_title''),
               requests := requests w @
                 [WhatsAppText (msg_from md) (js ''Please enter the journal title to search for:'')]\<rparr>)"
      by (rule one)
         (simp_all add: b button_branch_def bindP_def modify_def prompt_journal_short js_inject)
  qed
qed

lemma greeting_event:
  assumes "msg_interactive md = None" and "msg_id md \<notin> processedMessages w"
    and "userState w (msg_from md) = None" and "msg_from md \<notin> set Object_prototype_names"
    and "accepted e (length (requests w))"
  shows "post_webhook e (Message md) w =
           (SendStatus 200,
            w\<lparr>processedMessages := insert (msg_id md) (processedMessages w),
              requests := requests w @
                [WhatsAppButtons (msg_from md) (js ''Hello! Choose an option:'')
                   [(js ''get_topics'', js ''Topics''),
                    (js ''search_journals'', js ''Search Journals'')]]\<rparr>)"
proof -
  let ?w0 = "w\<lparr>processedMessages := insert (msg_id md) (processedMessages w)\<rparr>"
  have g: "get_userState ?w0 (msg_from md) = Undefined"
    using assms(3,4) by (simp add: get_userState_def)
  have "accepted e (length (requests ?w0))" using assms(5) by simp
  from buttons_accepted [OF this] assms(1,2) g show ?thesis
    by (simp add: post_webhook_def Let_def dispatch_def falsy_def sendGreeting_def)
qed

lemma topic_branch_both_fail:
  assumes g: "generateTitles e m w = (Inl err, v)" and d: "\<not> delivered e (length (requests v))"
  shows "\<exists>err'. topic_branch e p m w =
           (Inl err', v\<lparr>requests := requests v @
                        [WhatsAppText p (js ''Error processing your message. Please try again.'')]\<rparr>)"
  using g send_short_failed [OF retry_topic_short d, of p]
  by (auto simp: topic_branch_def try_catch_def bindP_def modify_def)

lemma unknown_button_event:
  assumes "msg_interactive md = Some (Interactive (Some (ButtonReply b)))"
    and "b \<noteq> Some (js ''get_topics'')" and "b \<noteq> Some (js ''search_journals'')"
  shows "post_webhook e (Message md) w =
           (if msg_id md \<in> processedMessages w
            then Send 200 (Some (js ''Message already processed'')) else SendStatus 200,
            w\<lparr>processedMessages := insert (msg_id md) (processedMessages w)\<rparr>)"
  using assms
  by (simp add: post_webhook_def dispatch_def button_branch_def returnP_def insert_absorb)

lemma send_all_delivered:
  assumes "\<forall>k < (length message + 4095) div 4096. delivered e (length (requests w) + k)"
  shows "sendWhatsAppMessage e to message w =
           (Inr (), w\<lparr>requests := requests w @
              map (\<lambda>k. WhatsAppText to (chunk message k)) [0..<(length message + 4095) div 4096]\<rparr>)"
  using assms send_loop_all_delivered [of message 0 e w to]
  unfolding ceil_4096 sendWhatsAppMessage_send_loop chunk_request_chunk by simp

subsection \<open>The concrete inputs\<close>

lemma user1_plain: "user1 \<notin> set Object_prototype_names" "user1 \<noteq> js ''__proto__''"
  by (simp_all add: user1_def Object_prototype_names_def js_inject)

lemma trim_replicate: "\<not> is_js_space c \<Longrightarrow> trim (replicate n c) = replicate n c"
proof -
  assume a: "\<not> is_js_space c"
  have "dropWhile is_js_space (replicate n c) = replicate n c"
    using a by (cases n) simp_all
  then show ?thesis by (simp add: trim_def)
qed

lemma not_space_97: "\<not> is_js_space 97"
  by (simp add: is_js_space_def)

lemma whatsapp_up_delivered: "delivered whatsapp_up n" "accepted whatsapp_up n"
  by (simp_all add: delivered_def accepted_def whatsapp_up_def ok_def)

lemma long_answer_delivered: "delivered long_answer n"
  by (simp add: delivered_def long_answer_def whatsapp_up_def ok_def)

lemma whatsapp_down_not_delivered: "\<not> delivered whatsapp_down n"
  by (simp add: delivered_def whatsapp_down_def whatsapp_up_def ok_def)

lemma button_message_simps:
  "msg_from (button_message i b) = user1" "msg_id (button_message i b) = js i"
  "text_body (button_message i b) = None"
  "msg_interactive (button_message i b) = Some (Interactive (Some (ButtonReply (Some (js b)))))"
  by (simp_all add: button_message_def)

lemma text_message_simps:
  "msg_from (text_message i t) = user1" "msg_id (text_message i t) = js i"
  "text_body (text_message i t) = Some (js t)" "msg_interactive (text_message i t) = None"
  by (simp_all add: text_message_def)

lemma generateTitles_backend_down:
  "generateTitles e (js ''ai'') w =
     (Inl FailedToGenerateTitles, w\<lparr>requests := requests w @ [GenerateContent (prompt_for (js ''ai''))]\<rparr>)"
  if "generateContent e = (\<lambda>p. None)"
  using that
  by (simp add: generateTitles_def js_Nil_iff try_catch_def bindP_def throwP_def call_generateContent_def)

section \<open>The values stored in the user-state map\<close>

text \<open>
  C9. After any sequence of POST requests from start-up, every entry of \<open>userState\<close>
  holds \<open>waiting_for_topic\<close> or \<open>waiting_for_journal_title\<close>; one request keeps that
  property; and a request that changes the map sets the sender's entry to one of these
  two values or deletes it (the state without a pending input is the absence of an
  entry).
\<close>

theorem userState_values:
  "ran (userState (run evs start_up)) \<subseteq> pending_values
   \<and> (ran (userState w) \<subseteq> pending_values \<longrightarrow>
        ran (userState (snd (post_webhook e b w))) \<subseteq> pending_values)
   \<and> (userState (snd (post_webhook e b w)) = userState w
      \<or> (\<exists>md. b = Message md \<and>
           (userState (snd (post_webhook e b w)) = (userState w)(msg_from md \<mapsto> js ''waiting_for_topic'')
            \<or> userState (snd (post_webhook e b w)) = (userState w)(msg_from md \<mapsto> js ''waiting_for_journal_title'')
            \<or> userState (snd (post_webhook e b w)) = (userState w)(msg_from md := None))))"
proof (intro conjI)
  have "ran (userState start_up) \<subseteq> pending_values" by (simp add: start_up_def)
  then show "ran (userState (run evs start_up)) \<subseteq> pending_values" by (rule run_pending)
  show "ran (userState w) \<subseteq> pending_values \<longrightarrow>
        ran (userState (snd (post_webhook e b w))) \<subseteq> pending_values"
    using post_webhook_pending by blast
  obtain r w' where p: "post_webhook e b w = (r, w')" by (cases "post_webhook e b w")
  from post_webhook_step [OF p]
  show "userState (snd (post_webhook e b w)) = userState w
      \<or> (\<exists>md. b = Message md \<and>
           (userState (snd (post_webhook e b w)) = (userState w)(msg_from md \<mapsto> js ''waiting_for_topic'')
            \<or> userState (snd (post_webhook e b w)) = (userState w)(msg_from md \<mapsto> js ''waiting_for_journal_title'')
            \<or> userState (snd (post_webhook e b w)) = (userState w)(msg_from md := None)))"
    unfolding p step_of_def by auto
qed

theorem userState_values_witness:
  "ran (userState (run [(whatsapp_up, Message (button_message ''wamid.6'' ''get_topics''))] start_up)) \<subseteq> pending_values
   \<and> userState (run [(whatsapp_up, Message (button_message ''wamid.6'' ''get_topics''))] start_up)
       = [user1 \<mapsto> js ''waiting_for_topic'']"
proof -
  let ?md = "button_message ''wamid.6'' ''get_topics''"
  have a: "msg_interactive ?md = Some (Interactive (Some (ButtonReply (Some (js ''get_topics'')))))"
    by (simp add: button_message_simps)
  have b: "msg_id ?md \<notin> processedMessages start_up" by (simp add: start_up_def)
  have c: "msg_from ?md \<noteq> js ''__proto__''" by (simp add: button_message_simps user1_plain)
  from button_event [OF a b c, of whatsapp_up]
  have "userState (run [(whatsapp_up, Message ?md)] start_up) = [user1 \<mapsto> js ''waiting_for_topic'']"
    by (simp add: whatsapp_up_delivered button_message_simps start_up_def)
  with userState_values [of "[(whatsapp_up, Message ?md)]" start_up whatsapp_up "Message ?md"] show ?thesis
    by blast
qed

section \<open>Selections that name no option\<close>

text \<open>
  C10. For a selection event whose button identifier is neither \<open>get_topics\<close> nor
  \<open>search_journals\<close> (or is absent from the \<open>button_reply\<close>), the handler answers 200
  (with the body "Message already processed" when the message identifier was recorded
  before), the message identifier is in \<open>processedMessages\<close> afterwards, and nothing
  else changes: \<open>userState\<close> is the same and no request is issued.
\<close>

theorem unknown_button_ignored:
  assumes "msg_interactive md = Some (Interactive (Some (ButtonReply b)))"
    and "b \<noteq> Some (js ''get_topics'')" and "b \<noteq> Some (js ''search_journals'')"
  shows "post_webhook e (Message md) w =
           (if msg_id md \<in> processedMessages w
            then Send 200 (Some (js ''Message already processed'')) else SendStatus 200,
            w\<lparr>processedMessages := insert (msg_id md) (processedMessages w)\<rparr>)"
  using assms
  by (simp add: post_webhook_def dispatch_def button_branch_def returnP_def insert_absorb)

theorem unknown_button_ignored_witness:
  "post_webhook whatsapp_up (Message (button_message ''wamid.3'' ''other'')) start_up =
     (SendStatus 200, start_up\<lparr>processedMessages := {js ''wamid.3''}\<rparr>)"
proof -
  have a: "msg_interactive (button_message ''wamid.3'' ''other'')
             = Some (Interactive (Some (ButtonReply (Some (js ''other'')))))"
    by (simp add: button_message_def)
  have b: "Some (js ''other'') \<noteq> Some (js ''get_topics'')" by (simp add: js_inject)
  have c: "Some (js ''other'') \<noteq> Some (js ''search_journals'')" by (simp add: js_inject)
  from unknown_button_ignored [OF a b c, of whatsapp_up start_up] show ?thesis
    by (simp add: start_up_def button_message_def)
qed

section \<open>Duplicate deliveries\<close>

text \<open>
  C1, as amended. For an event whose message identifier is already in
  \<open>processedMessages\<close>, the handler answers 200 and leaves the whole state as it was: no
  write to \<open>userState\<close> or \<open>processedMessages\<close>, no adapter call, no outbound send. For
  a fresh identifier the dispatch starts from the state in which the identifier is
  recorded, and the identifier is recorded afterwards whatever the dispatch does. So a
  second delivery of the same message, under any behaviour of the backends, is answered
  200 and adds nothing: after two deliveries the state and the requests issued are those
  after one.
\<close>

theorem duplicate_delivery:
  "(msg_id md \<in> processedMessages w \<longrightarrow>
      post_webhook e (Message md) w = (Send 200 (Some (js ''Message already processed'')), w))
   \<and> (msg_id md \<notin> processedMessages w \<longrightarrow>
        (\<exists>x. dispatch e md (msg_from md) (case text_body md of Some b \<Rightarrow> b | None \<Rightarrow> [])
                (w\<lparr>processedMessages := insert (msg_id md) (processedMessages w)\<rparr>)
              = (x, snd (post_webhook e (Message md) w)))
        \<and> processedMessages (snd (post_webhook e (Message md) w))
            = insert (msg_id md) (processedMessages w))
   \<and> post_webhook e' (Message md) (snd (post_webhook e (Message md) w))
       = (Send 200 (Some (js ''Message already processed'')), snd (post_webhook e (Message md) w))"
proof -
  let ?w0 = "w\<lparr>processedMessages := insert (msg_id md) (processedMessages w)\<rparr>"
  let ?m = "case text_body md of Some b \<Rightarrow> b | None \<Rightarrow> []"
  have dup: "post_webhook e'' (Message md) v = (Send 200 (Some (js ''Message already processed'')), v)"
    if "msg_id md \<in> processedMessages v" for e'' v
    using that by (simp add: post_webhook_def)
  obtain x v where d: "dispatch e md (msg_from md) ?m ?w0 = (x, v)"
    by (cases "dispatch e md (msg_from md) ?m ?w0")
  from dispatch_step [OF d] have pv: "processedMessages v = insert (msg_id md) (processedMessages w)"
    by (simp add: step_of_def)
  have fresh: "snd (post_webhook e (Message md) w) = v" if "msg_id md \<notin> processedMessages w"
    using that d by (simp add: post_webhook_def split: sum.splits)
  have recorded: "msg_id md \<in> processedMessages (snd (post_webhook e (Message md) w))"
  proof (cases "msg_id md \<in> processedMessages w")
    case True then show ?thesis by (simp add: dup)
  next
    case False then show ?thesis by (simp add: fresh pv)
  qed
  show ?thesis
    using dup [OF recorded] d pv fresh by (auto simp: dup)
qed

theorem duplicate_delivery_witness:
  "post_webhook whatsapp_up (Message (text_message ''wamid.1'' ''hello'')) start_up =
     (SendStatus 200,
      start_up\<lparr>processedMessages := {js ''wamid.1''},
         requests := [WhatsAppButtons user1 (js ''Hello! Choose an option:'')
                        [(js ''get_topics'', js ''Topics''),
                         (js ''search_journals'', js ''Search Journals'')]]\<rparr>)
   \<and> post_webhook whatsapp_up (Message (text_message ''wamid.1'' ''hello''))
       (start_up\<lparr>processedMessages := {js ''wamid.1''},
          requests := [WhatsAppButtons user1 (js ''Hello! Choose an option:'')
                        [(js ''get_topics'', js ''Topics''),
                         (js ''search_journals'', js ''Search Journals'')]]\<rparr>) =
     (Send 200 (Some (js ''Message already processed'')),
      start_up\<lparr>processedMessages := {js ''wamid.1''},
         requests := [WhatsAppButtons user1 (js ''Hello! Choose an option:'')
                        [(js ''get_topics'', js ''Topics''),
                         (js ''search_journals'', js ''Search Journals'')]]\<rparr>)"
proof -
  let ?md = "text_message ''wamid.1'' ''hello''"
  have first: "post_webhook whatsapp_up (Message ?md) start_up =
     (SendStatus 200,
      start_up\<lparr>processedMessages := {js ''wamid.1''},
         requests := [WhatsAppButtons user1 (js ''Hello! Choose an option:'')
                        [(js ''get_topics'', js ''Topics''),
                         (js ''search_journals'', js ''Search Journals'')]]\<rparr>)"
    using greeting_event [of ?md start_up whatsapp_up]
    by (simp add: text_message_simps user1_plain whatsapp_up_delivered start_up_def)
  from duplicate_delivery [of ?md start_up whatsapp_up whatsapp_up] show ?thesis
    unfolding first by (simp add: text_message_simps)
qed

text \<open>
  The number of outbound messages of the two deliveries together is not always one.
  A selection naming no option, delivered twice, sends nothing; a text awaited as a
  topic, answered by the backend with 5000 code units and delivered twice, sends two
  messages.
\<close>

theorem idempotency_counterexample:
  "filter is_send (requests (snd (post_webhook whatsapp_up (Message (button_message ''wamid.3'' ''other''))
      (snd (post_webhook whatsapp_up (Message (button_message ''wamid.3'' ''other'')) start_up))))) = []
   \<and> filter is_send (requests (snd (post_webhook long_answer (Message (text_message ''wamid.2'' ''ai''))
      (snd (post_webhook long_answer (Message (text_message ''wamid.2'' ''ai'')) awaiting_topic))))) =
       [WhatsAppText user1 (replicate 4096 97), WhatsAppText user1 (replicate 904 97)]"
proof
  let ?b = "button_message ''wamid.3'' ''other''"
  have 1: "post_webhook whatsapp_up (Message ?b) start_up = (SendStatus 200, start_up\<lparr>processedMessages := {js ''wamid.3''}\<rparr>)"
    using unknown_button_event [of ?b "Some (js ''other'')" whatsapp_up start_up]
    by (simp add: button_message_simps js_inject start_up_def)
  have 2: "post_webhook whatsapp_up (Message ?b) (start_up\<lparr>processedMessages := {js ''wamid.3''}\<rparr>)
      = (Send 200 (Some (js ''Message already processed'')), start_up\<lparr>processedMessages := {js ''wamid.3''}\<rparr>)"
    by (rule post_webhook_duplicate) (simp add: button_message_simps)
  show "filter is_send (requests (snd (post_webhook whatsapp_up (Message ?b)
      (snd (post_webhook whatsapp_up (Message ?b) start_up))))) = []"
    unfolding 1 snd_conv 2 by (simp add: start_up_def)
next
  let ?t = "text_message ''wamid.2'' ''ai''"
  let ?w0 = "awaiting_topic\<lparr>processedMessages := {js ''wamid.2''}\<rparr>"
  let ?wa = "?w0\<lparr>requests := [GenerateContent (prompt_for (js ''ai''))]\<rparr>"
  let ?wb = "?wa\<lparr>requests := [GenerateContent (prompt_for (js ''ai'')),
               WhatsAppText user1 (replicate 4096 97), WhatsAppText user1 (replicate 904 97)]\<rparr>"
  have g: "generateTitles long_answer (js ''ai'') ?w0 = (Inr (replicate 5000 97), ?wa)"
    by (simp add: generateTitles_def js_Nil_iff try_catch_def bindP_def returnP_def
          call_generateContent_def long_answer_def whatsapp_up_def trim_replicate not_space_97 awaiting_topic_def start_up_def)
  have s: "sendWhatsAppMessage long_answer user1 (replicate 5000 97) ?wa = (Inr (), ?wb)"
    using send_all_delivered [of "replicate 5000 97" long_answer ?wa user1]
    by (simp add: long_answer_delivered upt2 chunk_replicate)
  have st: "get_userState ?w0 user1 = Own (js ''waiting_for_topic'')"
    by (simp add: get_userState_def awaiting_topic_def)
  have 1: "post_webhook long_answer (Message ?t) awaiting_topic = (SendStatus 200, delete_userState user1 ?wb)"
    using g s st
    by (simp add: post_webhook_def Let_def dispatch_def text_message_simps topic_branch_def
          try_catch_def bindP_def modify_def awaiting_topic_def start_up_def)
  have 2: "post_webhook long_answer (Message ?t) (delete_userState user1 ?wb)
      = (Send 200 (Some (js ''Message already processed'')), delete_userState user1 ?wb)"
    by (rule post_webhook_duplicate) (simp add: text_message_simps delete_userState_def)
  show "filter is_send (requests (snd (post_webhook long_answer (Message ?t)
      (snd (post_webhook long_answer (Message ?t) awaiting_topic))))) =
       [WhatsAppText user1 (replicate 4096 97), WhatsAppText user1 (replicate 904 97)]"
    unfolding 1 snd_conv 2 by (simp add: delete_userState_def is_send_def)
qed

section \<open>Selections in any state\<close>

text \<open>
  C2, as amended. A selection event with a fresh identifier is acted on whatever the
  sender's entry in \<open>userState\<close> is, also while the sender waits for a topic or a journal
  title: \<open>get_topics\<close> sets the entry to \<open>waiting_for_topic\<close> and issues the topic
  prompt, \<open>search_journals\<close> sets it to \<open>waiting_for_journal_title\<close> and issues the
  journal prompt; the answer is 200 when the prompt is delivered and 500 when it is not.
  (The sender key \<open>__proto__\<close> is left out: an assignment to it stores nothing.)
\<close>

theorem selection_any_state:
  assumes "msg_interactive md = Some (Interactive (Some (ButtonReply (Some b))))"
    and "msg_id md \<notin> processedMessages w" and "msg_from md \<noteq> js ''__proto__''"
  shows "(b = js ''get_topics'' \<longrightarrow>
          post_webhook e (Message md) w =
            (if delivered e (length (requests w)) then SendStatus 200 else SendStatus 500,
             w\<lparr>processedMessages := insert (msg_id md) (processedMessages w),
               userState := (userState w)(msg_from md \<mapsto> js ''waiting_for_topic''),
               requests := requests w @
                 [WhatsAppText (msg_from md) (js ''Please enter the topic for your research paper:'')]\<rparr>))
       \<and> (b = js ''search_journals'' \<longrightarrow>
          post_webhook e (Message md) w =
            (if delivered e (length (requests w)) then SendStatus 200 else SendStatus 500,
             w\<lparr>processedMessages := insert (msg_id md) (processedMessages w),
               userState := (userState w)(msg_from md \<mapsto> js ''waiting_for_journal_title''),
               requests := requests w @
                 [WhatsAppText (msg_from md) (js ''Please enter the journal title to search for:'')]\<rparr>))"
  using assms by (rule button_event)

theorem selection_any_state_witness:
  "post_webhook whatsapp_up (Message (button_message ''wamid.7'' ''get_topics''))
     (start_up\<lparr>userState := [user1 \<mapsto> js ''waiting_for_journal_title'']\<rparr>) =
     (SendStatus 200,
      start_up\<lparr>processedMessages := {js ''wamid.7''},
         userState := [user1 \<mapsto> js ''waiting_for_topic''],
         requests := [WhatsAppText user1 (js ''Please enter the topic for your research paper:'')]\<rparr>)"
proof -
  let ?md = "button_message ''wamid.7'' ''get_topics''"
  let ?w = "start_up\<lparr>userState := [user1 \<mapsto> js ''waiting_for_journal_title'']\<rparr>"
  have a: "msg_interactive ?md = Some (Interactive (Some (ButtonReply (Some (js ''get_topics'')))))"
    by (simp add: button_message_simps)
  have b: "msg_id ?md \<notin> processedMessages ?w" by (simp add: start_up_def)
  have c: "msg_from ?md \<noteq> js ''__proto__''" by (simp add: button_message_simps user1_plain)
  from selection_any_state [OF a b c, of whatsapp_up] show ?thesis
    by (simp add: whatsapp_up_delivered button_message_simps start_up_def)
qed

text \<open>
  A sender waiting for a topic presses \<open>search_journals\<close>: the entry changes to
  \<open>waiting_for_journal_title\<close> and the journal prompt is sent.
\<close>

theorem selection_counterexample:
  "userState awaiting_topic user1 = Some (js ''waiting_for_topic'')
   \<and> post_webhook whatsapp_up (Message (button_message ''wamid.4'' ''search_journals'')) awaiting_topic =
       (SendStatus 200,
        awaiting_topic\<lparr>processedMessages := {js ''wamid.4''},
           userState := [user1 \<mapsto> js ''waiting_for_journal_title''],
           requests := [WhatsAppText user1 (js ''Please enter the journal title to search for:'')]\<rparr>)"
proof -
  let ?md = "button_message ''wamid.4'' ''search_journals''"
  have a: "msg_interactive ?md = Some (Interactive (Some (ButtonReply (Some (js ''search_journals'')))))"
    by (simp add: button_message_simps)
  have b: "msg_id ?md \<notin> processedMessages awaiting_topic" by (simp add: awaiting_topic_def start_up_def)
  have c: "msg_from ?md \<noteq> js ''__proto__''" by (simp add: button_message_simps user1_plain)
  from button_event [OF a b c, of whatsapp_up] show ?thesis
    by (simp add: whatsapp_up_delivered button_message_simps awaiting_topic_def start_up_def)
qed

section \<open>Adapter failure\<close>

text \<open>
  C3, as amended. For a text event with a fresh identifier from a sender waiting for a
  topic (for a journal title), when title generation (journal search) throws and the POST
  of the retry message is delivered, the handler answers 200, the sender's entry is
  removed from \<open>userState\<close>, and exactly one outbound message is sent during the call,
  the retry message to that sender: the adapter has issued no outbound message, and the
  retry message is the last request.
\<close>

theorem adapter_failure_resets:
  assumes "msg_interactive md = None" and "msg_id md \<notin> processedMessages w"
    and "delivered e (length (requests v))"
  shows
    "(userState w (msg_from md) = Some (js ''waiting_for_topic'')
      \<and> generateTitles e (case text_body md of Some t \<Rightarrow> t | None \<Rightarrow> [])
            (w\<lparr>processedMessages := insert (msg_id md) (processedMessages w)\<rparr>) = (Inl err, v)
      \<longrightarrow> post_webhook e (Message md) w =
            (SendStatus 200,
             v\<lparr>userState := (userState w)(msg_from md := None),
               requests := requests v @
                 [WhatsAppText (msg_from md) (js ''Error processing your message. Please try again.'')]\<rparr>)
          \<and> filter is_send (drop (length (requests w)) (requests v)) = [])
     \<and> (userState w (msg_from md) = Some (js ''waiting_for_journal_title'')
      \<and> searchJournals e (case text_body md of Some t \<Rightarrow> t | None \<Rightarrow> [])
            (w\<lparr>processedMessages := insert (msg_id md) (processedMessages w)\<rparr>) = (Inl err, v)
      \<longrightarrow> post_webhook e (Message md) w =
            (SendStatus 200,
             v\<lparr>userState := (userState w)(msg_from md := None),
               requests := requests v @
                 [WhatsAppText (msg_from md) (js ''Error searching journals. Please try again.'')]\<rparr>)
          \<and> filter is_send (drop (length (requests w)) (requests v)) = [])"
proof (intro conjI impI)
  let ?w0 = "w\<lparr>processedMessages := insert (msg_id md) (processedMessages w)\<rparr>"
  let ?m = "case text_body md of Some t \<Rightarrow> t | None \<Rightarrow> []"
  {
    assume a: "userState w (msg_from md) = Some (js ''waiting_for_topic'')
      \<and> generateTitles e ?m ?w0 = (Inl err, v)"
    then have g: "generateTitles e ?m ?w0 = (Inl err, v)" by simp
    have u: "userState v = userState w"
      using req_only_fields [OF generateTitles_req_only [OF g]] by simp
    have s: "get_userState ?w0 (msg_from md) = Own (js ''waiting_for_topic'')"
      using a by (simp add: get_userState_def)
    show "post_webhook e (Message md) w =
            (SendStatus 200,
             v\<lparr>userState := (userState w)(msg_from md := None),
               requests := requests v @
                 [WhatsAppText (msg_from md) (js ''Error processing your message. Please try again.'')]\<rparr>)"
      using assms(1,2) s u topic_branch_adapter_fails [OF g assms(3), of "msg_from md"]
      by (simp add: post_webhook_def Let_def dispatch_def)
    show "filter is_send (drop (length (requests w)) (requests v)) = []"
      using generateTitles_no_send [OF g] by simp
  }
  {
    assume a: "userState w (msg_from md) = Some (js ''waiting_for_journal_title'')
      \<and> searchJournals e ?m ?w0 = (Inl err, v)"
    then have g: "searchJournals e ?m ?w0 = (Inl err, v)" by simp
    have u: "userState v = userState w"
      using req_only_fields [OF searchJournals_req_only [OF g]] by simp
    have s: "get_userState ?w0 (msg_from md) = Own (js ''waiting_for_journal_title'')"
      using a by (simp add: get_userState_def)
    show "post_webhook e (Message md) w =
            (SendStatus 200,
             v\<lparr>userState := (userState w)(msg_from md := None),
               requests := requests v @
                 [WhatsAppText (msg_from md) (js ''Error searching journals. Please try again.'')]\<rparr>)"
      using assms(1,2) s u journal_branch_adapter_fails [OF g assms(3), of "msg_from md"]
      by (simp add: post_webhook_def Let_def dispatch_def js_inject)
    show "filter is_send (drop (length (requests w)) (requests v)) = []"
      using searchJournals_no_send [OF g] by simp
  }
qed

theorem adapter_failure_resets_witness:
  "post_webhook whatsapp_up (Message (text_message ''wamid.5'' ''ai'')) awaiting_topic =
     (SendStatus 200,
      start_up\<lparr>processedMessages := {js ''wamid.5''},
         requests := [GenerateContent (prompt_for (js ''ai'')),
                      WhatsAppText user1 (js ''Error processing your message. Please try again.'')]\<rparr>)"
proof -
  let ?md = "text_message ''wamid.5'' ''ai''"
  let ?v = "awaiting_topic\<lparr>processedMessages := {js ''wamid.5''},
                   requests := [GenerateContent (prompt_for (js ''ai''))]\<rparr>"
  have a: "msg_interactive ?md = None" by (simp add: text_message_simps)
  have b: "msg_id ?md \<notin> processedMessages awaiting_topic" by (simp add: awaiting_topic_def start_up_def)
  have c: "delivered whatsapp_up (length (requests ?v))" by (rule whatsapp_up_delivered)
  have g: "generateTitles whatsapp_up (js ''ai'') (awaiting_topic\<lparr>processedMessages := {js ''wamid.5''}\<rparr>)
             = (Inl FailedToGenerateTitles, ?v)"
    by (simp add: generateTitles_backend_down whatsapp_up_def awaiting_topic_def start_up_def)
  from adapter_failure_resets [OF a b c, of FailedToGenerateTitles] g show ?thesis
    by (simp add: text_message_simps awaiting_topic_def start_up_def)
qed

text \<open>
  When the adapter fails and the POST of the retry message is not delivered either, the
  exception leaves the \<open>catch\<close> block before the \<open>delete\<close>: the sender still waits for
  a topic, and the handler answers 500.
\<close>

theorem adapter_failure_counterexample:
  "generateTitles whatsapp_down (js ''ai'') (awaiting_topic\<lparr>processedMessages := {js ''wamid.5''}\<rparr>) =
     (Inl FailedToGenerateTitles,
      awaiting_topic\<lparr>processedMessages := {js ''wamid.5''},
         requests := [GenerateContent (prompt_for (js ''ai''))]\<rparr>)
   \<and> post_webhook whatsapp_down (Message (text_message ''wamid.5'' ''ai'')) awaiting_topic =
     (SendStatus 500,
      awaiting_topic\<lparr>processedMessages := {js ''wamid.5''},
         requests := [GenerateContent (prompt_for (js ''ai'')),
                      WhatsAppText user1 (js ''Error processing your message. Please try again.'')]\<rparr>)
   \<and> userState (snd (post_webhook whatsapp_down (Message (text_message ''wamid.5'' ''ai'')) awaiting_topic)) user1
       = Some (js ''waiting_for_topic'')"
proof -
  let ?md = "text_message ''wamid.5'' ''ai''"
  let ?w0 = "awaiting_topic\<lparr>processedMessages := {js ''wamid.5''}\<rparr>"
  let ?v = "awaiting_topic\<lparr>processedMessages := {js ''wamid.5''},
                   requests := [GenerateContent (prompt_for (js ''ai''))]\<rparr>"
  have g: "generateTitles whatsapp_down (js ''ai'') ?w0 = (Inl FailedToGenerateTitles, ?v)"
    by (simp add: generateTitles_backend_down whatsapp_down_def whatsapp_up_def awaiting_topic_def start_up_def)
  have d: "\<not> delivered whatsapp_down (length (requests ?v))" by (rule whatsapp_down_not_delivered)
  from topic_branch_both_fail [OF g d, of user1]
  obtain err' where t: "topic_branch whatsapp_down user1 (js ''ai'') ?w0 =
      (Inl err', ?v\<lparr>requests := requests ?v @
          [WhatsAppText user1 (js ''Error processing your message. Please try again.'')]\<rparr>)"
    by blast
  have st: "get_userState ?w0 user1 = Own (js ''waiting_for_topic'')"
    by (simp add: get_userState_def awaiting_topic_def)
  have p: "post_webhook whatsapp_down (Message ?md) awaiting_topic =
     (SendStatus 500,
      awaiting_topic\<lparr>processedMessages := {js ''wamid.5''},
         requests := [GenerateContent (prompt_for (js ''ai'')),
                      WhatsAppText user1 (js ''Error processing your message. Please try again.'')]\<rparr>)"
    using t st
    by (simp add: post_webhook_def Let_def dispatch_def text_message_simps awaiting_topic_def start_up_def)
  show ?thesis unfolding p using g by (simp add: awaiting_topic_def)
qed

section \<open>The status of the POST response\<close>




end
